theory Spec2Isabelle
  imports Main "HOL-Library.Sublist"
begin

section \<open>The schema (packages/db schema: file, share, activityLog)\<close>

text \<open>
  Identifiers, tokens and e-mail addresses are strings. A timestamp is the number of
  milliseconds since the epoch, so that comparing two JavaScript \<open>Date\<close> values, or a
  column with SQL \<open>NOW()\<close>, is comparing integers.
\<close>

type_synonym ident = string
type_synonym timestamp = int

text \<open>The three Postgres enums: \<open>share_type\<close>, \<open>role\<close> and \<open>activity_type\<close>.\<close>

datatype share_type = User | Link

datatype role = Owner | Viewer | Editor

datatype activity_type = Upload | Download | Share | Unshare | Delete

text \<open>
  The \<open>user\<close> table belongs to the authentication schema; the routes read three of its
  columns.
\<close>

record user_row =
  user_id :: ident
  user_name :: string
  user_email :: string

record file_row =
  file_id :: ident
  file_filename :: string
  file_cloudinaryId :: string
  file_fileUrl :: string
  file_size :: int
  file_type :: string
  file_resourceType :: "string option"
  file_ownerId :: ident
  file_createdAt :: timestamp
  file_updatedAt :: timestamp

record share_row =
  share_id :: ident
  share_fileId :: ident
  share_shareType :: share_type
  share_sharedWithUserId :: "ident option"
  share_token :: "string option"
  share_role :: role
  share_expiresAt :: "timestamp option"
  share_createdAt :: timestamp
  share_createdBy :: ident

record activity_row =
  log_id :: ident
  log_fileId :: ident
  log_userId :: ident
  log_activityType :: activity_type
  log_metadata :: "string option"
  log_createdAt :: timestamp

text \<open>
  The state the routes work on: the four tables, each a list of rows in storage order, and
  the public ids of the blobs held by Cloudinary. A query without \<open>ORDER BY\<close> scans a
  table in this order, and an insert appends to it.
\<close>

record state =
  users :: "user_row list"
  files :: "file_row list"
  shares :: "share_row list"
  activityLog :: "activity_row list"
  blobs :: "string list"

section \<open>What a request brings with it\<close>

text \<open>
  The calls of a handler that leave the process. Each of them is awaited and may reject.
\<close>

datatype io_call =
  InsFile | UpdFile | DelFile | InsShare | DelShare | InsLog
  | CloudUpload | CloudResource | CloudDestroy

record upload_result =
  public_id :: string
  secure_url :: string
  resource_type :: string

text \<open>
  Everything a handler reads that is neither its arguments nor the tables: the clock, the
  successive results of \<open>nanoid()\<close> (the k-th call of the request), which outside calls
  reject for reasons of their own (a lost connection), what Cloudinary answers, and what
  the runtime's \<open>Date.parse\<close> makes of a string (\<open>None\<close> for NaN).
\<close>

record env =
  now :: timestamp
  nanoid :: "nat \<Rightarrow> string"
  fails :: "io_call \<Rightarrow> bool"
  cloudinary_upload :: "string \<Rightarrow> upload_result"
  cloudinary_resource :: "string \<Rightarrow> string"
  date_parse :: "string \<Rightarrow> timestamp option"

text \<open>What an awaited call throws.\<close>

datatype exn =
  StorageFailure | UniqueViolation | ForeignKeyViolation | InvalidEnumValue
  | CloudinaryError | TypeError

text \<open>
  A value of the JSON request body, as far as \<open>!v\<close>, \<open>v && ...\<close> and
  \<open>Array.includes\<close> and \<open>new Date\<close> can tell values apart. A number is taken to be
  integral. \<open>JObject s\<close> stands for an object or an array whose conversion to a primitive
  value gives the string \<open>s\<close>; \<open>JUndefined\<close> is what reading a field gives when the body
  does not have it.
\<close>

datatype json =
  JUndefined | JNull | JBool bool | JNumber int | JString string | JObject string

fun truthy :: "json \<Rightarrow> bool" where
  "truthy JUndefined = False"
| "truthy JNull = False"
| "truthy (JBool b) = b"
| "truthy (JNumber n) = (n \<noteq> 0)"
| "truthy (JString s) = (s \<noteq> [])"
| "truthy (JObject s) = True"

record share_user_body =
  userEmail :: "string option"
  body_role :: json
  expiresAt :: json

record uploaded_file =
  originalname :: string
  upload_size :: int
  mimetype :: string
  path :: string

section \<open>Responses\<close>

datatype body =
  ErrorMsg string
  | Thrown exn
  | Uploaded file_row
  | UploadedBulk "file_row list" "(string \<times> exn) list"
  | FileInfo file_row bool "role option"
  | DownloadUrl string string
  | Success string
  | Shared share_row user_row
  | LinkShared share_row
  | SharedFile file_row role

record response =
  status :: nat
  body :: body

definition respond :: "nat \<Rightarrow> body \<Rightarrow> response" where
  "respond c b = \<lparr>status = c, body = b\<rparr>"

section \<open>The database statements\<close>

text \<open>
  An insert is refused when the connection fails, when the primary key is taken, when the
  token is taken (\<open>token\<close> is \<open>unique\<close>; SQL lets any number of rows have no token), or
  when a referenced row is missing.
\<close>

definition insert_file :: "env \<Rightarrow> file_row \<Rightarrow> state \<Rightarrow> exn + state" where
  "insert_file e r d =
     (if fails e InsFile then Inl StorageFailure
      else if file_id r \<in> set (map file_id (files d)) then Inl UniqueViolation
      else if file_ownerId r \<notin> set (map user_id (users d)) then Inl ForeignKeyViolation
      else Inr (d\<lparr>files := files d @ [r]\<rparr>))"

definition insert_share :: "env \<Rightarrow> share_row \<Rightarrow> state \<Rightarrow> exn + state" where
  "insert_share e r d =
     (if fails e InsShare then Inl StorageFailure
      else if share_id r \<in> set (map share_id (shares d)) then Inl UniqueViolation
      else if share_token r \<noteq> None \<and> share_token r \<in> set (map share_token (shares d))
        then Inl UniqueViolation
      else if share_fileId r \<notin> set (map file_id (files d)) then Inl ForeignKeyViolation
      else if (case share_sharedWithUserId r of None \<Rightarrow> False
               | Some w \<Rightarrow> w \<notin> set (map user_id (users d))) then Inl ForeignKeyViolation
      else if share_createdBy r \<notin> set (map user_id (users d)) then Inl ForeignKeyViolation
      else Inr (d\<lparr>shares := shares d @ [r]\<rparr>))"

definition insert_activityLog :: "env \<Rightarrow> activity_row \<Rightarrow> state \<Rightarrow> exn + state" where
  "insert_activityLog e r d =
     (if fails e InsLog then Inl StorageFailure
      else if log_id r \<in> set (map log_id (activityLog d)) then Inl UniqueViolation
      else if log_fileId r \<notin> set (map file_id (files d)) then Inl ForeignKeyViolation
      else if log_userId r \<notin> set (map user_id (users d)) then Inl ForeignKeyViolation
      else Inr (d\<lparr>activityLog := activityLog d @ [r]\<rparr>))"

text \<open>\<open>db.update(file).set({ resourceType }).where(eq(file.id, id))\<close>\<close>

definition update_file_resourceType :: "env \<Rightarrow> ident \<Rightarrow> string \<Rightarrow> state \<Rightarrow> exn + state" where
  "update_file_resourceType e i rt d =
     (if fails e UpdFile then Inl StorageFailure
      else Inr (d\<lparr>files := map (\<lambda>f. if file_id f = i
                    then f\<lparr>file_resourceType := Some rt, file_updatedAt := now e\<rparr> else f)
                  (files d)\<rparr>))"

text \<open>\<open>db.delete(share).where(eq(share.id, shareId))\<close>\<close>

definition delete_share :: "env \<Rightarrow> ident \<Rightarrow> state \<Rightarrow> exn + state" where
  "delete_share e i d =
     (if fails e DelShare then Inl StorageFailure
      else Inr (d\<lparr>shares := filter (\<lambda>s. share_id s \<noteq> i) (shares d)\<rparr>))"

text \<open>
  \<open>db.delete(file).where(eq(file.id, id))\<close>. Both \<open>share.fileId\<close> and
  \<open>activityLog.fileId\<close> reference \<open>file.id\<close> with \<open>onDelete: "cascade"\<close>, so the rows
  of the two tables that name the file go with it.
\<close>

definition delete_file :: "env \<Rightarrow> ident \<Rightarrow> state \<Rightarrow> exn + state" where
  "delete_file e i d =
     (if fails e DelFile then Inl StorageFailure
      else Inr (d\<lparr>files := filter (\<lambda>f. file_id f \<noteq> i) (files d),
                  shares := filter (\<lambda>s. share_fileId s \<noteq> i) (shares d),
                  activityLog := filter (\<lambda>a. log_fileId a \<noteq> i) (activityLog d)\<rparr>))"

text \<open>
  \<open>logActivity(fileId, userId, activityType, metadata)\<close>, defined alike in both route
  files. The argument \<open>k\<close> says which \<open>nanoid()\<close> call of the request makes the row's id;
  \<open>createdAt\<close> is the column default \<open>now()\<close>.
\<close>

definition logActivity ::
  "env \<Rightarrow> nat \<Rightarrow> ident \<Rightarrow> ident \<Rightarrow> activity_type \<Rightarrow> string option \<Rightarrow> state \<Rightarrow> exn + state" where
  "logActivity e k fileId userId activityType metadata d =
     insert_activityLog e
       \<lparr>log_id = nanoid e k, log_fileId = fileId, log_userId = userId,
        log_activityType = activityType, log_metadata = metadata, log_createdAt = now e\<rparr> d"

text \<open>
  \<open>cloudinary.uploader.destroy(publicId, { resource_type })\<close>: the blob is gone unless
  the call rejects.
\<close>

definition cloudinary_destroy :: "env \<Rightarrow> string \<Rightarrow> string \<Rightarrow> state \<Rightarrow> exn + state" where
  "cloudinary_destroy e pid rt d =
     (if fails e CloudDestroy then Inl CloudinaryError
      else Inr (d\<lparr>blobs := removeAll pid (blobs d)\<rparr>))"

text \<open>
  The filter \<open>or(isNull(share.expiresAt), sql`${share.expiresAt} > NOW()`)\<close> of the three
  queries of the file routes.
\<close>

definition not_expired :: "timestamp \<Rightarrow> share_row \<Rightarrow> bool" where
  "not_expired t s = (case share_expiresAt s of None \<Rightarrow> True | Some x \<Rightarrow> x > t)"

section \<open>The file routes\<close>

text \<open>
  \<open>GET /api/files/:id\<close>. The handler only reads. \<open>ru\<close> is \<open>req.user\<close>, which the
  middleware sets from the session.
\<close>

definition files_get_id :: "env \<Rightarrow> user_row option \<Rightarrow> string \<Rightarrow> state \<Rightarrow> response" where
  "files_get_id e ru i d =
     (case ru of
        None \<Rightarrow> respond 401 (ErrorMsg ''Unauthorized'')
      | Some u \<Rightarrow>
          if i = [] then respond 400 (ErrorMsg ''File ID is required'')
          else (case find (\<lambda>f. file_id f = i) (files d) of
            None \<Rightarrow> respond 404 (ErrorMsg ''File not found'')
          | Some fileRecord \<Rightarrow>
              let isOwner = (file_ownerId fileRecord = user_id u);
                  hasShare = find (\<lambda>s. share_fileId s = file_id fileRecord
                                   \<and> share_sharedWithUserId s = Some (user_id u)
                                   \<and> not_expired (now e) s) (shares d)
              in if \<not> isOwner \<and> hasShare = None
                 then respond 403 (ErrorMsg ''Access denied'')
                 else respond 200 (FileInfo fileRecord isOwner
                        (if isOwner then Some Owner else map_option share_role hasShare))))"

text \<open>
  \<open>GET /api/files/:id/download\<close>: the same access check, then the audit row, then the
  answer.
\<close>

definition files_get_download ::
  "env \<Rightarrow> user_row option \<Rightarrow> string \<Rightarrow> state \<Rightarrow> response \<times> state" where
  "files_get_download e ru i d =
     (case ru of
        None \<Rightarrow> (respond 401 (ErrorMsg ''Unauthorized''), d)
      | Some u \<Rightarrow>
          if i = [] then (respond 400 (ErrorMsg ''File ID is required''), d)
          else (case find (\<lambda>f. file_id f = i) (files d) of
            None \<Rightarrow> (respond 404 (ErrorMsg ''File not found''), d)
          | Some fileRecord \<Rightarrow>
              let isOwner = (file_ownerId fileRecord = user_id u);
                  hasShare = find (\<lambda>s. share_fileId s = file_id fileRecord
                                   \<and> share_sharedWithUserId s = Some (user_id u)
                                   \<and> not_expired (now e) s) (shares d)
              in if \<not> isOwner \<and> hasShare = None
                 then (respond 403 (ErrorMsg ''Access denied''), d)
                 else (case logActivity e 0 (file_id fileRecord) (user_id u) Download None d of
                   Inl x \<Rightarrow> (respond 500 (Thrown x), d)
                 | Inr d1 \<Rightarrow>
                     (respond 200 (DownloadUrl (file_fileUrl fileRecord)
                        (file_filename fileRecord)), d1))))"

text \<open>
  The part of \<open>POST /api/files/upload\<close> from the Cloudinary upload to the end of the inner
  \<open>try\<close>/\<open>catch\<close>; the bulk route runs the same statements for each of its files. The
  \<open>catch\<close> destroys the blob, swallows a failure of that, and throws the error on. It
  does not touch the tables. The temporary file on the local disk is left out.
\<close>

definition upload_one ::
  "env \<Rightarrow> user_row \<Rightarrow> uploaded_file \<Rightarrow> state \<Rightarrow> (exn + file_row) \<times> state" where
  "upload_one e u uf d =
     (if fails e CloudUpload then (Inl CloudinaryError, d)
      else
        let result = cloudinary_upload e (path uf);
            d0 = d\<lparr>blobs := blobs d @ [public_id result]\<rparr>;
            cleanup = (\<lambda>s. case cloudinary_destroy e (public_id result) (resource_type result) s of
                             Inl _ \<Rightarrow> s | Inr s' \<Rightarrow> s');
            newFile = \<lparr>file_id = nanoid e 0, file_filename = originalname uf,
                       file_cloudinaryId = public_id result, file_fileUrl = secure_url result,
                       file_size = upload_size uf, file_type = mimetype uf,
                       file_resourceType = Some (resource_type result),
                       file_ownerId = user_id u,
                       file_createdAt = now e, file_updatedAt = now e\<rparr>
        in (case insert_file e newFile d0 of
              Inl x \<Rightarrow> (Inl x, cleanup d0)
            | Inr d1 \<Rightarrow>
                (case logActivity e 1 (nanoid e 0) (user_id u) Upload None d1 of
                   Inl x \<Rightarrow> (Inl x, cleanup d1)
                 | Inr d2 \<Rightarrow> (Inr newFile, d2))))"

text \<open>\<open>POST /api/files/upload\<close>. The file is looked at before the user.\<close>

definition files_post_upload ::
  "env \<Rightarrow> user_row option \<Rightarrow> uploaded_file option \<Rightarrow> state \<Rightarrow> response \<times> state" where
  "files_post_upload e ru rf d =
     (case rf of
        None \<Rightarrow> (respond 400 (ErrorMsg ''No file uploaded''), d)
      | Some uf \<Rightarrow>
          (case ru of
             None \<Rightarrow> (respond 401 (ErrorMsg ''Unauthorized''), d)
           | Some u \<Rightarrow>
               (case upload_one e u uf d of
                  (Inl x, d') \<Rightarrow> (respond 500 (Thrown x), d')
                | (Inr newFile, d') \<Rightarrow> (respond 201 (Uploaded newFile), d'))))"

text \<open>
  \<open>POST /api/files/upload-bulk\<close>. Each file's promise has its own clock, ids and
  outside calls, so each file comes with an environment of its own; the promises are run
  in the order of the array. A file that fails is reported in \<open>errors\<close> with its name, and
  the answer is 201 all the same.
\<close>

fun upload_each ::
  "user_row \<Rightarrow> (env \<times> uploaded_file) list \<Rightarrow> state
     \<Rightarrow> file_row list \<times> (string \<times> exn) list \<times> state" where
  "upload_each u [] d = ([], [], d)"
| "upload_each u ((e, uf) # rest) d =
     (case upload_one e u uf d of
        (Inl x, d1) \<Rightarrow>
          (case upload_each u rest d1 of
             (ok, bad, d2) \<Rightarrow> (ok, (originalname uf, x) # bad, d2))
      | (Inr f, d1) \<Rightarrow>
          (case upload_each u rest d1 of
             (ok, bad, d2) \<Rightarrow> (f # ok, bad, d2)))"

definition files_post_upload_bulk ::
  "user_row option \<Rightarrow> (env \<times> uploaded_file) list \<Rightarrow> state \<Rightarrow> response \<times> state" where
  "files_post_upload_bulk ru rfs d =
     (if rfs = [] then (respond 400 (ErrorMsg ''No files uploaded''), d)
      else (case ru of
        None \<Rightarrow> (respond 401 (ErrorMsg ''Unauthorized''), d)
      | Some u \<Rightarrow>
          (case upload_each u rfs d of
             (ok, bad, d') \<Rightarrow> (respond 201 (UploadedBulk ok bad), d'))))"

text \<open>
  The resource type the delete route hands to Cloudinary: the stored one, or else the one
  Cloudinary reports, written back to the row, or else, when asking or writing back
  throws, a guess from the MIME type.
\<close>

definition resolve_resourceType :: "env \<Rightarrow> file_row \<Rightarrow> ident \<Rightarrow> state \<Rightarrow> string \<times> state" where
  "resolve_resourceType e fileRecord i d =
     (let inferred = (if prefix ''image/'' (file_type fileRecord) then ''image''
                      else if prefix ''video/'' (file_type fileRecord) then ''video''
                      else ''raw'');
          fetched = (if fails e CloudResource then (inferred, d)
                     else let rt = cloudinary_resource e (file_cloudinaryId fileRecord)
                          in (case update_file_resourceType e i rt d of
                                Inl _ \<Rightarrow> (inferred, d)
                              | Inr d' \<Rightarrow> (rt, d')))
      in (case file_resourceType fileRecord of
            None \<Rightarrow> fetched
          | Some rt \<Rightarrow> if rt = [] then fetched else (rt, d)))"

text \<open>
  \<open>DELETE /api/files/:id\<close>: destroy the blob, write the audit row, delete the file row.
\<close>

definition files_delete ::
  "env \<Rightarrow> user_row option \<Rightarrow> string \<Rightarrow> state \<Rightarrow> response \<times> state" where
  "files_delete e ru i d =
     (case ru of
        None \<Rightarrow> (respond 401 (ErrorMsg ''Unauthorized''), d)
      | Some u \<Rightarrow>
          if i = [] then (respond 400 (ErrorMsg ''File ID is required''), d)
          else (case find (\<lambda>f. file_id f = i) (files d) of
            None \<Rightarrow> (respond 404 (ErrorMsg ''File not found''), d)
          | Some fileRecord \<Rightarrow>
              if file_ownerId fileRecord \<noteq> user_id u
              then (respond 403 (ErrorMsg ''Only owner can delete''), d)
              else (case resolve_resourceType e fileRecord i d of
                (resourceType, d1) \<Rightarrow>
                  (case cloudinary_destroy e (file_cloudinaryId fileRecord) resourceType d1 of
                     Inl x \<Rightarrow> (respond 500 (Thrown x), d1)
                   | Inr d2 \<Rightarrow>
                       (case logActivity e 0 (file_id fileRecord) (user_id u) Delete None d2 of
                          Inl x \<Rightarrow> (respond 500 (Thrown x), d2)
                        | Inr d3 \<Rightarrow>
                            (case delete_file e i d3 of
                               Inl x \<Rightarrow> (respond 500 (Thrown x), d3)
                             | Inr d4 \<Rightarrow>
                                 (respond 200 (Success ''File deleted successfully''), d4)))))))"

section \<open>The share routes\<close>

text \<open>
  \<open>new Date(v).getTime()\<close> for a value of the body, \<open>None\<close> standing for NaN: a string
  is parsed, anything else is converted to a number (\<open>null\<close> and \<open>false\<close> to 0, \<open>true\<close>
  to 1, \<open>undefined\<close> to NaN), and a number beyond 8.64e15 milliseconds either side of the
  epoch is no date.
\<close>

fun new_Date :: "(string \<Rightarrow> timestamp option) \<Rightarrow> json \<Rightarrow> timestamp option" where
  "new_Date parse JUndefined = None"
| "new_Date parse JNull = Some 0"
| "new_Date parse (JBool b) = Some (if b then 1 else 0)"
| "new_Date parse (JNumber n) = (if \<bar>n\<bar> \<le> 8640000000000000 then Some n else None)"
| "new_Date parse (JString s) = parse s"
| "new_Date parse (JObject s) = parse s"

text \<open>
  The block \<open>// Validate expiresAt date\<close>, which the two creating routes have word for
  word: the message of the 400 answer, or the date to store. The block is entered only
  \<open>if (expiresAt)\<close>; otherwise the date to store stays \<open>null\<close>.
\<close>

definition validate_expiresAt :: "env \<Rightarrow> json \<Rightarrow> string + timestamp option" where
  "validate_expiresAt e v =
     (if truthy v then
        (case new_Date (date_parse e) v of
           None \<Rightarrow> Inl ''Invalid expiration date''
         | Some parsedDate \<Rightarrow>
             if parsedDate \<le> now e then Inl ''Expiration date must be in the future''
             else Inr (Some parsedDate))
      else Inr None)"

definition allowedRoles :: "json list" where
  "allowedRoles = [JString ''viewer'', JString ''editor'']"

text \<open>What Postgres makes of a value written to a column of the enum \<open>role\<close>.\<close>

fun role_enum :: "json \<Rightarrow> role option" where
  "role_enum (JString s) =
     (if s = ''owner'' then Some Owner
      else if s = ''viewer'' then Some Viewer
      else if s = ''editor'' then Some Editor
      else None)"
| "role_enum _ = None"

text \<open>
  \<open>POST /api/share/:fileId/user\<close>. The body's \<open>role\<close> defaults to "viewer" when it
  is undefined, is checked only when it is truthy, and is stored as
  \<open>role || "viewer"\<close>.
\<close>

definition share_post_user ::
  "env \<Rightarrow> user_row option \<Rightarrow> string \<Rightarrow> share_user_body \<Rightarrow> state \<Rightarrow> response \<times> state" where
  "share_post_user e ru fileId b d =
     (case ru of
        None \<Rightarrow> (respond 401 (ErrorMsg ''Unauthorized''), d)
      | Some u \<Rightarrow>
        if fileId = [] then (respond 400 (ErrorMsg ''File ID is required''), d)
        else
          let role = (if body_role b = JUndefined then JString ''viewer'' else body_role b) in
          (case userEmail b of
            None \<Rightarrow> (respond 400 (ErrorMsg ''User email is required''), d)
          | Some email \<Rightarrow>
            if email = [] then (respond 400 (ErrorMsg ''User email is required''), d)
            else if truthy role \<and> role \<notin> set allowedRoles
            then (respond 400 (ErrorMsg (''Invalid role. Must be 'viewer' or 'editor'' @ [CHR 0x27])), d)
            else (case find (\<lambda>f. file_id f = fileId) (files d) of
              None \<Rightarrow> (respond 404 (ErrorMsg ''File not found''), d)
            | Some fileRecord \<Rightarrow>
              if file_ownerId fileRecord \<noteq> user_id u
              then (respond 403 (ErrorMsg ''Only file owner can share files''), d)
              else (case find (\<lambda>x. user_email x = email) (users d) of
                None \<Rightarrow> (respond 404 (ErrorMsg ''User not found''), d)
              | Some sharedUser \<Rightarrow>
                if user_id sharedUser = user_id u
                then (respond 400 (ErrorMsg ''Cannot share with yourself''), d)
                else (case find (\<lambda>s. share_fileId s = fileId
                                   \<and> share_sharedWithUserId s = Some (user_id sharedUser)
                                   \<and> share_shareType s = User) (shares d) of
                  Some existingShare \<Rightarrow>
                    (respond 400 (ErrorMsg ''File already shared with this user''), d)
                | None \<Rightarrow>
                  (case validate_expiresAt e (expiresAt b) of
                    Inl msg \<Rightarrow> (respond 400 (ErrorMsg msg), d)
                  | Inr expiresAtDate \<Rightarrow>
                    (case role_enum (if truthy role then role else JString ''viewer'') of
                      None \<Rightarrow> (respond 500 (Thrown InvalidEnumValue), d)
                    | Some r \<Rightarrow>
                      let newShare =
                        \<lparr>share_id = nanoid e 0, share_fileId = fileId,
                         share_shareType = User,
                         share_sharedWithUserId = Some (user_id sharedUser),
                         share_token = None, share_role = r,
                         share_expiresAt = expiresAtDate, share_createdAt = now e,
                         share_createdBy = user_id u\<rparr>
                      in (case insert_share e newShare d of
                        Inl x \<Rightarrow> (respond 500 (Thrown x), d)
                      | Inr d1 \<Rightarrow>
                        (case logActivity e 1 fileId (user_id u) Share
                                (Some (''Shared with '' @ email)) d1 of
                          Inl x \<Rightarrow> (respond 500 (Thrown x), d1)
                        | Inr d2 \<Rightarrow> (respond 201 (Shared newShare sharedUser), d2))))))))))"

text \<open>
  \<open>POST /api/share/:fileId/link\<close>. The token is \<open>nanoid(32)\<close>, drawn before the date
  is looked at; the stored role is the literal "viewer".
\<close>

definition share_post_link ::
  "env \<Rightarrow> user_row option \<Rightarrow> string \<Rightarrow> json \<Rightarrow> state \<Rightarrow> response \<times> state" where
  "share_post_link e ru fileId ex d =
     (case ru of
        None \<Rightarrow> (respond 401 (ErrorMsg ''Unauthorized''), d)
      | Some u \<Rightarrow>
        if fileId = [] then (respond 400 (ErrorMsg ''File ID is required''), d)
        else (case find (\<lambda>f. file_id f = fileId) (files d) of
          None \<Rightarrow> (respond 404 (ErrorMsg ''File not found''), d)
        | Some fileRecord \<Rightarrow>
          if file_ownerId fileRecord \<noteq> user_id u
          then (respond 403 (ErrorMsg ''Only file owner can generate share links''), d)
          else
            let token = nanoid e 0 in
            (case validate_expiresAt e ex of
              Inl msg \<Rightarrow> (respond 400 (ErrorMsg msg), d)
            | Inr expiresAtDate \<Rightarrow>
              let newShare =
                \<lparr>share_id = nanoid e 1, share_fileId = fileId, share_shareType = Link,
                 share_sharedWithUserId = None, share_token = Some token,
                 share_role = Viewer, share_expiresAt = expiresAtDate,
                 share_createdAt = now e, share_createdBy = user_id u\<rparr>
              in (case insert_share e newShare d of
                Inl x \<Rightarrow> (respond 500 (Thrown x), d)
              | Inr d1 \<Rightarrow>
                (case logActivity e 2 fileId (user_id u) Share
                        (Some ''Generated share link'') d1 of
                  Inl x \<Rightarrow> (respond 500 (Thrown x), d1)
                | Inr d2 \<Rightarrow> (respond 201 (LinkShared newShare), d2))))))"

text \<open>
  \<open>GET /api/share/link/:token\<close>. The share is read together with its file
  (\<open>with: { file: ... }\<close>); the audit row is written before the file is used, and using a
  file that is not there throws.
\<close>

definition share_get_link ::
  "env \<Rightarrow> user_row option \<Rightarrow> string \<Rightarrow> state \<Rightarrow> response \<times> state" where
  "share_get_link e ru token d =
     (case ru of
        None \<Rightarrow> (respond 401 (ErrorMsg ''Unauthorized''), d)
      | Some u \<Rightarrow>
        if token = [] then (respond 400 (ErrorMsg ''Token is required''), d)
        else (case find (\<lambda>s. share_token s = Some token \<and> share_shareType s = Link) (shares d) of
          None \<Rightarrow> (respond 404 (ErrorMsg ''Share link not found''), d)
        | Some shareRecord \<Rightarrow>
          if (case share_expiresAt shareRecord of None \<Rightarrow> False | Some x \<Rightarrow> x < now e)
          then (respond 403 (ErrorMsg ''Share link has expired''), d)
          else (case logActivity e 0 (share_fileId shareRecord) (user_id u) Download None d of
            Inl x \<Rightarrow> (respond 500 (Thrown x), d)
          | Inr d1 \<Rightarrow>
            (case find (\<lambda>f. file_id f = share_fileId shareRecord) (files d) of
              None \<Rightarrow> (respond 500 (Thrown TypeError), d1)
            | Some f \<Rightarrow> (respond 200 (SharedFile f (share_role shareRecord)), d1)))))"

text \<open>\<open>DELETE /api/share/:shareId\<close>: delete the row, then write the audit row.\<close>

definition share_delete ::
  "env \<Rightarrow> user_row option \<Rightarrow> string \<Rightarrow> state \<Rightarrow> response \<times> state" where
  "share_delete e ru shareId d =
     (case ru of
        None \<Rightarrow> (respond 401 (ErrorMsg ''Unauthorized''), d)
      | Some u \<Rightarrow>
        if shareId = [] then (respond 400 (ErrorMsg ''Share ID is required''), d)
        else (case find (\<lambda>s. share_id s = shareId) (shares d) of
          None \<Rightarrow> (respond 404 (ErrorMsg ''Share not found''), d)
        | Some shareRecord \<Rightarrow>
          (case find (\<lambda>f. file_id f = share_fileId shareRecord) (files d) of
            None \<Rightarrow> (respond 500 (Thrown TypeError), d)
          | Some f \<Rightarrow>
            if file_ownerId f \<noteq> user_id u
            then (respond 403 (ErrorMsg ''Only file owner can revoke shares''), d)
            else (case delete_share e shareId d of
              Inl x \<Rightarrow> (respond 500 (Thrown x), d)
            | Inr d1 \<Rightarrow>
              (case logActivity e 0 (share_fileId shareRecord) (user_id u) Unshare
                      (Some (''Revoked share '' @ shareId)) d1 of
                Inl x \<Rightarrow> (respond 500 (Thrown x), d1)
              | Inr d2 \<Rightarrow> (respond 200 (Success ''Share revoked successfully''), d2))))))"

section \<open>Sequences of requests\<close>

text \<open>
  The requests that can change the tables, and the two reading ones the properties below
  speak about. The routes left out (the file list, the share list and the three activity
  routes) only read.
\<close>

datatype request =
  POST_files_upload "uploaded_file option"
  | POST_files_upload_bulk "(env \<times> uploaded_file) list"
  | GET_files_id string
  | GET_files_id_download string
  | DELETE_files_id string
  | POST_share_user string share_user_body
  | POST_share_link string json
  | GET_share_link string
  | DELETE_share string

fun handle :: "env \<Rightarrow> user_row option \<Rightarrow> request \<Rightarrow> state \<Rightarrow> response \<times> state" where
  "handle e ru (POST_files_upload rf) d = files_post_upload e ru rf d"
| "handle e ru (POST_files_upload_bulk rfs) d = files_post_upload_bulk ru rfs d"
| "handle e ru (GET_files_id i) d = (files_get_id e ru i d, d)"
| "handle e ru (GET_files_id_download i) d = files_get_download e ru i d"
| "handle e ru (DELETE_files_id i) d = files_delete e ru i d"
| "handle e ru (POST_share_user i b) d = share_post_user e ru i b d"
| "handle e ru (POST_share_link i ex) d = share_post_link e ru i ex d"
| "handle e ru (GET_share_link t) d = share_get_link e ru t d"
| "handle e ru (DELETE_share i) d = share_delete e ru i d"

text \<open>
  A history: the requests served one after the other, each with the environment it ran in
  and the user of its session.
\<close>

fun run :: "(env \<times> user_row option \<times> request) list \<Rightarrow> state \<Rightarrow> state" where
  "run [] d = d"
| "run ((e, ru, rq) # rest) d = run rest (snd (handle e ru rq d))"

text \<open>The tables before the first request: the registered users and nothing else.\<close>

definition initial :: "user_row list \<Rightarrow> state" where
  "initial us = \<lparr>users = us, files = [], shares = [], activityLog = [], blobs = []\<rparr>"

section \<open>What the database and the routes maintain\<close>

text \<open>
  \<open>unique_on P k xs\<close>: among the rows of \<open>xs\<close> that satisfy \<open>P\<close>, the key \<open>k\<close> tells
  rows apart.
\<close>

definition unique_on :: "('a \<Rightarrow> bool) \<Rightarrow> ('a \<Rightarrow> 'k) \<Rightarrow> 'a list \<Rightarrow> bool" where
  "unique_on P k xs \<longleftrightarrow> (\<forall>x\<in>set xs. \<forall>y\<in>set xs. P x \<and> P y \<and> k x = k y \<longrightarrow> x = y)"

text \<open>
  What the schema makes Postgres enforce: the three primary keys, the unique token (among
  the rows that have one), and the foreign keys.
\<close>

definition pk_ok :: "state \<Rightarrow> bool" where
  "pk_ok d \<longleftrightarrow>
     distinct (map file_id (files d)) \<and>
     distinct (map share_id (shares d)) \<and>
     distinct (map log_id (activityLog d))"

definition token_unique :: "state \<Rightarrow> bool" where
  "token_unique d \<longleftrightarrow> unique_on (\<lambda>s. share_token s \<noteq> None) share_token (shares d)"

definition fk_ok :: "state \<Rightarrow> bool" where
  "fk_ok d \<longleftrightarrow>
     (\<forall>f\<in>set (files d). file_ownerId f \<in> set (map user_id (users d))) \<and>
     (\<forall>s\<in>set (shares d).
        share_fileId s \<in> set (map file_id (files d)) \<and>
        share_createdBy s \<in> set (map user_id (users d)) \<and>
        (\<forall>w. share_sharedWithUserId s = Some w \<longrightarrow> w \<in> set (map user_id (users d)))) \<and>
     (\<forall>a\<in>set (activityLog d).
        log_fileId a \<in> set (map file_id (files d)) \<and>
        log_userId a \<in> set (map user_id (users d)))"

definition schema_ok :: "state \<Rightarrow> bool" where
  "schema_ok d \<longleftrightarrow> pk_ok d \<and> token_unique d \<and> fk_ok d"

text \<open>
  What no constraint enforces and the routes keep all the same, as long as requests are
  served one after the other: no stored grant has the role owner or an empty file id; a
  link grant names no user; a direct grant names a user who is not the owner of its file;
  and a file has at most one direct grant per user.
\<close>

definition grant_rows_ok :: "state \<Rightarrow> bool" where
  "grant_rows_ok d \<longleftrightarrow>
     (\<forall>s\<in>set (shares d).
        share_role s \<noteq> Owner \<and> share_fileId s \<noteq> [] \<and>
        (share_shareType s = Link \<longrightarrow> share_sharedWithUserId s = None) \<and>
        (share_shareType s = User \<longrightarrow> share_sharedWithUserId s \<noteq> None \<and>
           (\<forall>f\<in>set (files d). file_id f = share_fileId s
              \<longrightarrow> share_sharedWithUserId s \<noteq> Some (file_ownerId f))))"

definition grant_unique :: "state \<Rightarrow> bool" where
  "grant_unique d \<longleftrightarrow>
     unique_on (\<lambda>s. share_shareType s = User)
       (\<lambda>s. (share_fileId s, share_sharedWithUserId s)) (shares d)"

definition state_ok :: "state \<Rightarrow> bool" where
  "state_ok d \<longleftrightarrow> schema_ok d \<and> grant_rows_ok d \<and> grant_unique d"

section \<open>Notions the properties use\<close>


text \<open>
  The same environment, except that the insert into \<open>activity_log\<close> is refused.
\<close>

definition audit_down :: "env \<Rightarrow> env" where
  "audit_down e = e\<lparr>fails := (fails e)(InsLog := True)\<rparr>"

section \<open>Sample data\<close>

text \<open>
  Three users, an environment in which nothing fails, and the history in which Alice uploads
  a file and shares it with Bob as editor until time 100; \<open>sample_state\<close> is the state
  that history ends in.
\<close>

definition alice :: user_row where
  "alice = \<lparr>user_id = ''u1'', user_name = ''Alice'', user_email = ''alice@example.org''\<rparr>"

definition bob :: user_row where
  "bob = \<lparr>user_id = ''u2'', user_name = ''Bob'', user_email = ''bob@example.org''\<rparr>"

definition carol :: user_row where
  "carol = \<lparr>user_id = ''u3'', user_name = ''Carol'', user_email = ''carol@example.org''\<rparr>"

definition report :: uploaded_file where
  "report = \<lparr>originalname = ''report.pdf'', upload_size = 1024,
             mimetype = ''application/pdf'', path = ''tmp1''\<rparr>"

definition quiet :: "timestamp \<Rightarrow> string \<Rightarrow> env" where
  "quiet t p =
     \<lparr>now = t,
      nanoid = (\<lambda>k. p @ (if k = 0 then ''a'' else if k = 1 then ''b'' else ''c'')),
      fails = (\<lambda>c. False),
      cloudinary_upload = (\<lambda>x. \<lparr>public_id = x, secure_url = ''https://'' @ x,
                                 resource_type = ''raw''\<rparr>),
      cloudinary_resource = (\<lambda>x. ''raw''),
      date_parse = (\<lambda>x. None)\<rparr>"

definition audit_fails :: "timestamp \<Rightarrow> string \<Rightarrow> env" where
  "audit_fails t p = audit_down (quiet t p)"

definition to_bob :: share_user_body where
  "to_bob = \<lparr>userEmail = Some ''bob@example.org'', body_role = JString ''editor'',
             expiresAt = JNumber 100\<rparr>"

definition to_carol :: "json \<Rightarrow> share_user_body" where
  "to_carol v = \<lparr>userEmail = Some ''carol@example.org'', body_role = JUndefined,
                 expiresAt = v\<rparr>"

definition sample_history :: "(env \<times> user_row option \<times> request) list" where
  "sample_history =
     [(quiet 1 ''f'', Some alice, POST_files_upload (Some report)),
      (quiet 2 ''s'', Some alice, POST_share_user ''fa'' to_bob)]"

definition sample_file :: file_row where
  "sample_file =
     \<lparr>file_id = ''fa'', file_filename = ''report.pdf'', file_cloudinaryId = ''tmp1'',
      file_fileUrl = ''https://tmp1'', file_size = 1024, file_type = ''application/pdf'',
      file_resourceType = Some ''raw'', file_ownerId = ''u1'', file_createdAt = 1,
      file_updatedAt = 1\<rparr>"

definition sample_grant :: share_row where
  "sample_grant =
     \<lparr>share_id = ''sa'', share_fileId = ''fa'', share_shareType = User,
      share_sharedWithUserId = Some ''u2'', share_token = None, share_role = Editor,
      share_expiresAt = Some 100, share_createdAt = 2, share_createdBy = ''u1''\<rparr>"

definition sample_state :: state where
  "sample_state =
     \<lparr>users = [alice, bob, carol], files = [sample_file], shares = [sample_grant],
      activityLog =
        [\<lparr>log_id = ''fb'', log_fileId = ''fa'', log_userId = ''u1'',
          log_activityType = Upload, log_metadata = None, log_createdAt = 1\<rparr>,
         \<lparr>log_id = ''sb'', log_fileId = ''fa'', log_userId = ''u1'',
          log_activityType = Share, log_metadata = Some ''Shared with bob@example.org'',
          log_createdAt = 2\<rparr>],
      blobs = [''tmp1'']\<rparr>"

text \<open>
  The same history followed by a share link that expires at time 50, and the state it ends
  in.
\<close>

definition sample_link :: share_row where
  "sample_link =
     \<lparr>share_id = ''lb'', share_fileId = ''fa'', share_shareType = Link,
      share_sharedWithUserId = None, share_token = Some ''la'', share_role = Viewer,
      share_expiresAt = Some 50, share_createdAt = 3, share_createdBy = ''u1''\<rparr>"

definition link_history :: "(env \<times> user_row option \<times> request) list" where
  "link_history =
     sample_history @ [(quiet 3 ''l'', Some alice, POST_share_link ''fa'' (JNumber 50))]"

definition link_state :: state where
  "link_state =
     sample_state\<lparr>shares := [sample_grant, sample_link],
       activityLog := activityLog sample_state @
         [\<lparr>log_id = ''lc'', log_fileId = ''fa'', log_userId = ''u1'',
           log_activityType = Share, log_metadata = Some ''Generated share link'',
           log_createdAt = 3\<rparr>]\<rparr>"

text \<open>
  A state no sequence of requests ends in, though no constraint of the schema excludes it:
  two direct grants of the same file to Bob, the first as viewer, the second as editor.
\<close>

definition dup_grant :: share_row where
  "dup_grant = sample_grant\<lparr>share_id := ''sx'', share_role := Viewer\<rparr>"

definition dup_state :: state where
  "dup_state = sample_state\<lparr>shares := [dup_grant, sample_grant]\<rparr>"

section \<open>The invariant holds in every reachable state\<close>

lemmas state_ok_defs = state_ok_def schema_ok_def pk_ok_def token_unique_def fk_ok_def
  grant_rows_ok_def grant_unique_def

lemmas sample_defs = alice_def bob_def carol_def report_def quiet_def to_bob_def sample_file_def
  sample_grant_def

lemmas route_defs = files_post_upload_def upload_one_def share_post_user_def
  share_post_link_def share_delete_def share_get_link_def files_get_id_def
  files_get_download_def files_delete_def resolve_resourceType_def
  insert_file_def insert_share_def insert_activityLog_def delete_share_def delete_file_def
  update_file_resourceType_def cloudinary_destroy_def logActivity_def
  validate_expiresAt_def allowedRoles_def respond_def not_expired_def

lemma unique_on_Nil [simp]: "unique_on P k []"
  by (simp add: unique_on_def)

lemma unique_on_filter: "unique_on P k xs \<Longrightarrow> unique_on P k (filter Q xs)"
  unfolding unique_on_def by simp

lemma unique_on_snoc:
  "unique_on P k xs \<Longrightarrow> (P r \<Longrightarrow> \<forall>x\<in>set xs. P x \<longrightarrow> k x \<noteq> k r) \<Longrightarrow> unique_on P k (xs @ [r])"
  unfolding unique_on_def by simp metis

lemma unique_onD:
  "unique_on P k xs \<Longrightarrow> x \<in> set xs \<Longrightarrow> y \<in> set xs \<Longrightarrow> P x \<Longrightarrow> P y \<Longrightarrow> k x = k y \<Longrightarrow> x = y"
  unfolding unique_on_def by blast

lemma state_ok_blobs [simp]: "state_ok (d\<lparr>blobs := b\<rparr>) = state_ok d"
  by (simp add: state_ok_defs)

lemma state_ok_initial: "state_ok (initial us)"
  by (simp add: state_ok_defs initial_def)

lemma insert_file_inv:
  assumes "insert_file e r d = Inr d'" and "state_ok d"
  shows "state_ok d'"
proof -
  from assms(1) have d': "d' = d\<lparr>files := files d @ [r]\<rparr>"
    and fresh: "file_id r \<notin> set (map file_id (files d))"
    and own: "file_ownerId r \<in> set (map user_id (users d))"
    by (auto simp: insert_file_def split: if_splits)
  have nofile: "\<forall>s\<in>set (shares d). share_fileId s \<noteq> file_id r"
    using assms(2) fresh unfolding state_ok_defs by (force simp: image_iff)
  have "pk_ok d'" using assms(2) fresh unfolding d' state_ok_defs by simp
  moreover have "token_unique d'" using assms(2) unfolding d' state_ok_defs by simp
  moreover have "fk_ok d'" using assms(2) own unfolding d' state_ok_defs by (auto simp: image_iff)
  moreover have "grant_rows_ok d'" using assms(2) nofile unfolding d' state_ok_defs by fastforce
  moreover have "grant_unique d'" using assms(2) unfolding d' state_ok_defs by simp
  ultimately show ?thesis by (simp add: state_ok_def schema_ok_def)
qed

lemma insert_activityLog_inv:
  assumes "insert_activityLog e r d = Inr d'" and "state_ok d"
  shows "state_ok d'"
proof -
  from assms(1) have d': "d' = d\<lparr>activityLog := activityLog d @ [r]\<rparr>"
    and fresh: "log_id r \<notin> set (map log_id (activityLog d))"
    and fk: "log_fileId r \<in> set (map file_id (files d))" "log_userId r \<in> set (map user_id (users d))"
    by (auto simp: insert_activityLog_def split: if_splits)
  have "pk_ok d'" using assms(2) fresh unfolding d' state_ok_defs by simp
  moreover have "token_unique d'" using assms(2) unfolding d' state_ok_defs by simp
  moreover have "fk_ok d'" using assms(2) fk unfolding d' state_ok_defs by (auto simp: image_iff)
  moreover have "grant_rows_ok d'" using assms(2) unfolding d' state_ok_defs by simp
  moreover have "grant_unique d'" using assms(2) unfolding d' state_ok_defs by simp
  ultimately show ?thesis by (simp add: state_ok_def schema_ok_def)
qed

lemma file_id_update:
  "file_id \<circ> (\<lambda>f. if file_id f = i then f\<lparr>file_resourceType := a, file_updatedAt := b\<rparr> else f)
     = file_id"
  by (auto simp: fun_eq_iff)

lemma update_file_resourceType_inv:
  assumes "update_file_resourceType e i rt d = Inr d'" and "state_ok d"
  shows "state_ok d'"
proof -
  from assms(1) have d': "d' = d\<lparr>files := map (\<lambda>f. if file_id f = i
                    then f\<lparr>file_resourceType := Some rt, file_updatedAt := now e\<rparr> else f)
                  (files d)\<rparr>"
    by (auto simp: update_file_resourceType_def split: if_splits)
  have "pk_ok d'" using assms(2) unfolding d' state_ok_defs by (simp add: file_id_update)
  moreover have "token_unique d'" using assms(2) unfolding d' state_ok_defs by simp
  moreover have "fk_ok d'" using assms(2) unfolding d' state_ok_defs
    by (auto simp: file_id_update image_iff split: if_splits)
  moreover have "grant_rows_ok d'" using assms(2) unfolding d' state_ok_defs
    by (auto split: if_splits)
  moreover have "grant_unique d'" using assms(2) unfolding d' state_ok_defs by simp
  ultimately show ?thesis by (simp add: state_ok_def schema_ok_def)
qed

lemma delete_share_inv:
  assumes "delete_share e i d = Inr d'" and "state_ok d"
  shows "state_ok d'"
proof -
  from assms(1) have d': "d' = d\<lparr>shares := filter (\<lambda>s. share_id s \<noteq> i) (shares d)\<rparr>"
    by (auto simp: delete_share_def split: if_splits)
  have "pk_ok d'" using assms(2) unfolding d' state_ok_defs by (simp add: distinct_map_filter)
  moreover have "token_unique d'" using assms(2) unfolding d' state_ok_defs
    by (simp add: unique_on_filter)
  moreover have "fk_ok d'" using assms(2) unfolding d' state_ok_defs by auto
  moreover have "grant_rows_ok d'" using assms(2) unfolding d' state_ok_defs by simp
  moreover have "grant_unique d'" using assms(2) unfolding d' state_ok_defs
    by (simp add: unique_on_filter)
  ultimately show ?thesis by (simp add: state_ok_def schema_ok_def)
qed

lemma delete_file_inv:
  assumes "delete_file e i d = Inr d'" and "state_ok d"
  shows "state_ok d'"
proof -
  from assms(1) have d': "d' = d\<lparr>files := filter (\<lambda>f. file_id f \<noteq> i) (files d),
                  shares := filter (\<lambda>s. share_fileId s \<noteq> i) (shares d),
                  activityLog := filter (\<lambda>a. log_fileId a \<noteq> i) (activityLog d)\<rparr>"
    by (auto simp: delete_file_def split: if_splits)
  have "pk_ok d'" using assms(2) unfolding d' state_ok_defs by (simp add: distinct_map_filter)
  moreover have "token_unique d'" using assms(2) unfolding d' state_ok_defs
    by (simp add: unique_on_filter)
  moreover have "fk_ok d'" using assms(2) unfolding d' state_ok_defs by (auto simp: image_iff)
  moreover have "grant_rows_ok d'" using assms(2) unfolding d' state_ok_defs by simp
  moreover have "grant_unique d'" using assms(2) unfolding d' state_ok_defs
    by (simp add: unique_on_filter)
  ultimately show ?thesis by (simp add: state_ok_def schema_ok_def)
qed

lemma insert_share_inv:
  assumes "insert_share e r d = Inr d'" and "state_ok d"
    and "share_role r \<noteq> Owner" and "share_fileId r \<noteq> []"
    and "share_shareType r = Link \<longrightarrow> share_sharedWithUserId r = None"
    and "share_shareType r = User \<longrightarrow> share_sharedWithUserId r \<noteq> None \<and>
           (\<forall>f\<in>set (files d). file_id f = share_fileId r
              \<longrightarrow> share_sharedWithUserId r \<noteq> Some (file_ownerId f)) \<and>
           (\<forall>s\<in>set (shares d). \<not> (share_fileId s = share_fileId r
              \<and> share_sharedWithUserId s = share_sharedWithUserId r
              \<and> share_shareType s = User))"
  shows "state_ok d'"
proof -
  from assms(1) have d': "d' = d\<lparr>shares := shares d @ [r]\<rparr>"
    and fresh: "share_id r \<notin> set (map share_id (shares d))"
    and tok: "share_token r = None \<or> share_token r \<notin> set (map share_token (shares d))"
    and fk: "share_fileId r \<in> set (map file_id (files d))"
      "share_createdBy r \<in> set (map user_id (users d))"
      "\<forall>w. share_sharedWithUserId r = Some w \<longrightarrow> w \<in> set (map user_id (users d))"
    by (auto simp: insert_share_def split: if_splits option.splits)
  have tok': "share_token r \<noteq> None \<Longrightarrow>
      \<forall>s\<in>set (shares d). share_token s \<noteq> None \<longrightarrow> share_token s \<noteq> share_token r"
    using tok by (force simp: image_iff)
  have "pk_ok d'" using assms(2) fresh unfolding d' state_ok_defs by simp
  moreover have "token_unique d'" using assms(2) tok' unfolding d' state_ok_defs
    by (simp add: unique_on_snoc)
  moreover have "fk_ok d'" using assms(2) fk unfolding d' state_ok_defs by (auto simp: image_iff)
  moreover have "grant_rows_ok d'" using assms(2-) unfolding d' state_ok_defs
    by (cases "share_shareType r") auto
  moreover have "grant_unique d'"
  proof -
    have "share_shareType r = User \<Longrightarrow> \<forall>s\<in>set (shares d). share_shareType s = User \<longrightarrow>
        (share_fileId s, share_sharedWithUserId s) \<noteq> (share_fileId r, share_sharedWithUserId r)"
      using assms(6) by auto
    then show ?thesis using assms(2) unfolding d' state_ok_defs
      by (simp add: unique_on_snoc)
  qed
  ultimately show ?thesis by (simp add: state_ok_def schema_ok_def)
qed


lemma logActivity_inv:
  "logActivity e k f u t m d = Inr d' \<Longrightarrow> state_ok d \<Longrightarrow> state_ok d'"
  unfolding logActivity_def by (rule insert_activityLog_inv)

lemma cloudinary_destroy_inv:
  "cloudinary_destroy e p rt d = Inr d' \<Longrightarrow> state_ok d \<Longrightarrow> state_ok d'"
  by (auto simp: cloudinary_destroy_def split: if_splits)

lemmas step_inv = logActivity_inv cloudinary_destroy_inv insert_file_inv
  update_file_resourceType_inv delete_share_inv delete_file_inv

lemma upload_one_inv: "upload_one e u uf d = (r, d') \<Longrightarrow> state_ok d \<Longrightarrow> state_ok d'"
  unfolding upload_one_def Let_def
  by (auto split: sum.splits if_splits) (erule step_inv | simp)+

lemma upload_each_inv: "upload_each u rfs d = (ok, bad, d') \<Longrightarrow> state_ok d \<Longrightarrow> state_ok d'"
proof (induction rfs arbitrary: d ok bad d')
  case Nil
  then show ?case by simp
next
  case (Cons a rfs)
  obtain e uf where a: "a = (e, uf)" by (cases a)
  obtain r d1 where one: "upload_one e u uf d = (r, d1)" by (cases "upload_one e u uf d")
  obtain ok1 bad1 d2 where rest: "upload_each u rfs d1 = (ok1, bad1, d2)"
    by (cases "upload_each u rfs d1")
  have "state_ok d1" using one Cons.prems(2) by (rule upload_one_inv)
  with rest have "state_ok d2" by (rule Cons.IH)
  moreover have "d' = d2" using Cons.prems(1) a one rest by (cases r) auto
  ultimately show ?case by simp
qed

lemma files_post_upload_inv:
  "files_post_upload e ru rf d = (r, d') \<Longrightarrow> state_ok d \<Longrightarrow> state_ok d'"
  unfolding files_post_upload_def
  by (auto split: option.splits sum.splits prod.splits intro: upload_one_inv)

lemma files_post_upload_bulk_inv:
  "files_post_upload_bulk ru rfs d = (r, d') \<Longrightarrow> state_ok d \<Longrightarrow> state_ok d'"
  unfolding files_post_upload_bulk_def
  by (auto split: option.splits prod.splits if_splits intro: upload_each_inv)

lemma files_get_download_inv:
  "files_get_download e ru i d = (r, d') \<Longrightarrow> state_ok d \<Longrightarrow> state_ok d'"
  unfolding files_get_download_def Let_def
  by (auto split: option.splits sum.splits if_splits intro: step_inv)

lemma resolve_resourceType_inv:
  "resolve_resourceType e f i d = (rt, d') \<Longrightarrow> state_ok d \<Longrightarrow> state_ok d'"
  unfolding resolve_resourceType_def Let_def
  by (auto split: option.splits sum.splits if_splits intro: step_inv)

lemma files_delete_inv:
  "files_delete e ru i d = (r, d') \<Longrightarrow> state_ok d \<Longrightarrow> state_ok d'"
  unfolding files_delete_def
  by (auto split: option.splits sum.splits prod.splits if_splits)
     (erule step_inv resolve_resourceType_inv | assumption)+

lemma share_get_link_inv:
  "share_get_link e ru t d = (r, d') \<Longrightarrow> state_ok d \<Longrightarrow> state_ok d'"
  unfolding share_get_link_def
  by (auto split: option.splits sum.splits if_splits intro: step_inv)

lemma share_delete_inv:
  "share_delete e ru i d = (r, d') \<Longrightarrow> state_ok d \<Longrightarrow> state_ok d'"
  unfolding share_delete_def
  by (auto split: option.splits sum.splits if_splits intro: step_inv)


lemma role_enum_allowed:
  assumes "\<not> (truthy v \<and> v \<notin> set allowedRoles)"
    and "role_enum (if truthy v then v else JString ''viewer'') = Some r"
  shows "r = Viewer \<or> r = Editor"
proof (cases "truthy v")
  case True
  with assms(1) have "v = JString ''viewer'' \<or> v = JString ''editor''"
    by (simp add: allowedRoles_def)
  with assms(2) True show ?thesis by auto
next
  case False
  with assms(2) show ?thesis by simp
qed

lemma find_file_unique:
  assumes "distinct (map file_id fs)" and "find (\<lambda>f. file_id f = i) fs = Some f0"
    and "f \<in> set fs" and "file_id f = i"
  shows "f = f0"
proof -
  from assms(2) have "f0 \<in> set fs" and "file_id f0 = i"
    by (auto simp: find_Some_iff)
  moreover from assms(1) have "inj_on file_id (set fs)" by (simp add: distinct_map)
  ultimately show ?thesis using assms(3,4) by (auto dest: inj_onD)
qed

lemma share_post_user_row:
  assumes "state_ok d"
    and "find (\<lambda>f. file_id f = fileId) (files d) = Some fileRecord"
    and "file_ownerId fileRecord = user_id u"
    and "user_id sharedUser \<noteq> user_id u"
    and "find (\<lambda>s. share_fileId s = fileId
                \<and> share_sharedWithUserId s = Some (user_id sharedUser)
                \<and> share_shareType s = User) (shares d) = None"
    and "fileId \<noteq> []" and "r = Viewer \<or> r = Editor"
    and "insert_share e
           \<lparr>share_id = sid, share_fileId = fileId, share_shareType = User,
            share_sharedWithUserId = Some (user_id sharedUser),
            share_token = None, share_role = r, share_expiresAt = x,
            share_createdAt = t, share_createdBy = c\<rparr> d = Inr d1"
  shows "state_ok d1"
proof (rule insert_share_inv [OF assms(8) assms(1)])
  show "share_role \<lparr>share_id = sid, share_fileId = fileId, share_shareType = User,
            share_sharedWithUserId = Some (user_id sharedUser),
            share_token = None, share_role = r, share_expiresAt = x,
            share_createdAt = t, share_createdBy = c\<rparr> \<noteq> Owner"
    using assms(7) by auto
next
  have pk: "distinct (map file_id (files d))" using assms(1) by (simp add: state_ok_defs)
  have own: "\<forall>f\<in>set (files d). file_id f = fileId \<longrightarrow> file_ownerId f = user_id u"
    using find_file_unique [OF pk assms(2)] assms(3) by blast
  have none: "\<forall>s\<in>set (shares d). \<not> (share_fileId s = fileId
                \<and> share_sharedWithUserId s = Some (user_id sharedUser)
                \<and> share_shareType s = User)"
    using assms(5) by (simp add: find_None_iff)
  show "share_shareType \<lparr>share_id = sid, share_fileId = fileId, share_shareType = User,
            share_sharedWithUserId = Some (user_id sharedUser),
            share_token = None, share_role = r, share_expiresAt = x,
            share_createdAt = t, share_createdBy = c\<rparr> = User \<longrightarrow> 
     share_sharedWithUserId \<lparr>share_id = sid, share_fileId = fileId, share_shareType = User,
            share_sharedWithUserId = Some (user_id sharedUser),
            share_token = None, share_role = r, share_expiresAt = x,
            share_createdAt = t, share_createdBy = c\<rparr> \<noteq> None \<and>
           (\<forall>f\<in>set (files d). file_id f = share_fileId \<lparr>share_id = sid, share_fileId = fileId, share_shareType = User,
            share_sharedWithUserId = Some (user_id sharedUser),
            share_token = None, share_role = r, share_expiresAt = x,
            share_createdAt = t, share_createdBy = c\<rparr>
              \<longrightarrow> share_sharedWithUserId \<lparr>share_id = sid, share_fileId = fileId, share_shareType = User,
            share_sharedWithUserId = Some (user_id sharedUser),
            share_token = None, share_role = r, share_expiresAt = x,
            share_createdAt = t, share_createdBy = c\<rparr> \<noteq> Some (file_ownerId f)) \<and>
           (\<forall>s\<in>set (shares d). \<not> (share_fileId s = share_fileId \<lparr>share_id = sid, share_fileId = fileId, share_shareType = User,
            share_sharedWithUserId = Some (user_id sharedUser),
            share_token = None, share_role = r, share_expiresAt = x,
            share_createdAt = t, share_createdBy = c\<rparr>
              \<and> share_sharedWithUserId s = share_sharedWithUserId \<lparr>share_id = sid, share_fileId = fileId, share_shareType = User,
            share_sharedWithUserId = Some (user_id sharedUser),
            share_token = None, share_role = r, share_expiresAt = x,
            share_createdAt = t, share_createdBy = c\<rparr>
              \<and> share_shareType s = User))"
    using own none assms(4) by simp
qed (use assms(6) in simp_all)

lemma role_in_allowed:
  "role_enum v = Some r \<Longrightarrow> v \<in> set allowedRoles \<Longrightarrow> r = Viewer \<or> r = Editor"
  by (auto simp: allowedRoles_def)

lemma share_post_user_inv:
  "share_post_user e ru fileId b d = (r, d') \<Longrightarrow> state_ok d \<Longrightarrow> state_ok d'"
  unfolding share_post_user_def Let_def
  by (auto split: option.splits sum.splits if_splits)
     (erule logActivity_inv | erule share_post_user_row [rotated -1] | assumption
       | erule role_in_allowed | simp)+

lemma share_post_link_inv:
  "share_post_link e ru fileId ex d = (r, d') \<Longrightarrow> state_ok d \<Longrightarrow> state_ok d'"
  unfolding share_post_link_def Let_def
  by (auto split: option.splits sum.splits if_splits)
     (erule logActivity_inv | erule insert_share_inv | assumption | simp)+

lemma handle_inv: "handle e ru rq d = (r, d') \<Longrightarrow> state_ok d \<Longrightarrow> state_ok d'"
  by (cases rq)
     (auto intro: files_post_upload_inv files_post_upload_bulk_inv files_get_download_inv
        files_delete_inv share_post_user_inv share_post_link_inv share_get_link_inv
        share_delete_inv)

lemma run_inv: "state_ok d \<Longrightarrow> state_ok (run h d)"
proof (induction h arbitrary: d)
  case Nil
  then show ?case by simp
next
  case (Cons a h)
  obtain e ru rq where a: "a = (e, ru, rq)" by (cases a)
  obtain r d1 where step: "handle e ru rq d = (r, d1)" by (cases "handle e ru rq d")
  from step Cons.prems have "state_ok d1" by (rule handle_inv)
  then have "state_ok (run h d1)" by (rule Cons.IH)
  with a step show ?case by simp
qed

lemma reachable_inv: "state_ok (run h (initial us))"
  by (rule run_inv) (rule state_ok_initial)


section \<open>Facts about queries\<close>

lemma find_distinct_key:
  "distinct (map k xs) \<Longrightarrow> x \<in> set xs \<Longrightarrow> find (\<lambda>y. k y = k x) xs = Some x"
proof (induction xs)
  case Nil
  then show ?case by simp
next
  case (Cons a xs)
  show ?case
  proof (cases "k a = k x")
    case True
    with Cons.prems have "a = x" by (cases "a = x") (auto simp: image_iff)
    with True show ?thesis by simp
  next
    case False
    with Cons show ?thesis by auto
  qed
qed

lemma find_unique:
  assumes "x \<in> set xs" and "P x" and "\<And>y. y \<in> set xs \<Longrightarrow> P y \<Longrightarrow> y = x"
  shows "find P xs = Some x"
  using assms
proof (induction xs)
  case Nil
  then show ?case by simp
next
  case (Cons a xs)
  show ?case
  proof (cases "P a")
    case True
    then have "a = x" using Cons.prems(3) by simp
    with True show ?thesis by simp
  next
    case False
    with Cons.prems(1,2) have "x \<in> set xs" by auto
    moreover have "\<And>y. y \<in> set xs \<Longrightarrow> P y \<Longrightarrow> y = x" using Cons.prems(3) by simp
    ultimately have "find P xs = Some x" using Cons.IH Cons.prems(2) by blast
    with False show ?thesis by simp
  qed
qed

text \<open>In a state the routes maintain, the file of a grant is found and is not the target's.\<close>

lemma grant_file:
  assumes "state_ok d" and "g \<in> set (shares d)" and "share_shareType g = User"
    and "share_sharedWithUserId g = Some w"
  obtains f where "find (\<lambda>f. file_id f = share_fileId g) (files d) = Some f"
    and "file_id f = share_fileId g" and "file_ownerId f \<noteq> w" and "share_fileId g \<noteq> []"
proof -
  from assms(1,2) have "share_fileId g \<in> set (map file_id (files d))"
    by (simp add: state_ok_defs)
  then obtain f0 where "f0 \<in> set (files d)" and "file_id f0 = share_fileId g"
    by (auto simp: image_iff)
  then have "find (\<lambda>f. file_id f = share_fileId g) (files d) \<noteq> None"
    by (auto simp: find_None_iff)
  then obtain f where f: "find (\<lambda>f. file_id f = share_fileId g) (files d) = Some f"
    by auto
  then have fin: "f \<in> set (files d)" and fid: "file_id f = share_fileId g"
    by (auto simp: find_Some_iff)
  from assms fin fid have "file_ownerId f \<noteq> w"
    unfolding state_ok_def grant_rows_ok_def by fastforce
  moreover from assms(1,2) have "share_fileId g \<noteq> []"
    unfolding state_ok_def grant_rows_ok_def by fastforce
  ultimately show thesis using f fid that by blast
qed

text \<open>In such a state a grant is the only row of its file that names its target.\<close>

lemma grant_only_one:
  assumes "state_ok d" and "g \<in> set (shares d)" and "share_shareType g = User"
    and "s \<in> set (shares d)" and "share_fileId s = share_fileId g"
    and "share_sharedWithUserId s = share_sharedWithUserId g"
    and "share_sharedWithUserId g = Some w"
  shows "s = g"
proof -
  from assms(1,4,6,7) have "share_shareType s = User"
    unfolding state_ok_def grant_rows_ok_def by (cases "share_shareType s") fastforce+
  moreover from assms(1) have "unique_on (\<lambda>s. share_shareType s = User)
       (\<lambda>s. (share_fileId s, share_sharedWithUserId s)) (shares d)"
    by (simp add: state_ok_def grant_unique_def)
  ultimately show ?thesis
    using assms(2-6) by (auto dest: unique_onD)
qed

lemma share_delete_ok:
  assumes "share_delete e ru i d = (r, d')" and "status r = 200"
  shows "shares d' = filter (\<lambda>s. share_id s \<noteq> i) (shares d) \<and> files d' = files d
    \<and> users d' = users d"
  using assms unfolding share_delete_def
  by (auto simp: respond_def delete_share_def logActivity_def insert_activityLog_def
        split: option.splits sum.splits if_splits)

lemma sample_run: "run sample_history (initial [alice, bob, carol]) = sample_state"
  by (simp add: sample_history_def sample_state_def initial_def sample_defs route_defs Let_def)

section \<open>Facts about the routes\<close>

lemma find_filter:
  "(\<And>x. x \<in> set xs \<Longrightarrow> P x \<Longrightarrow> Q x) \<Longrightarrow> find P (filter Q xs) = find P xs"
  by (induction xs) auto

lemma sample_state_ok: "state_ok sample_state"
  using reachable_inv [of sample_history "[alice, bob, carol]"] by (simp add: sample_run)

lemma run_append: "run (xs @ ys) d = run ys (run xs d)"
  by (induction xs arbitrary: d) auto

lemma link_run: "run link_history (initial [alice, bob, carol]) = link_state"
  by (simp add: link_history_def run_append sample_run)
     (simp add: link_state_def sample_state_def sample_link_def sample_defs route_defs Let_def)

lemma link_state_ok: "state_ok link_state"
  using reachable_inv [of link_history "[alice, bob, carol]"] by (simp add: link_run)

lemma find_filter_Cons: "filter P xs = g # rest \<Longrightarrow> find P xs = Some g"
proof (induction xs)
  case Nil
  then show ?case by simp
next
  case (Cons a xs)
  then show ?case by (cases "P a") auto
qed



lemma validate_expiresAt_Inl:
  "(\<exists>m. validate_expiresAt e v = Inl m)
     \<longleftrightarrow> truthy v \<and> (\<forall>t. new_Date (date_parse e) v = Some t \<longrightarrow> t \<le> now e)"
  by (cases "new_Date (date_parse e) v") (simp_all add: validate_expiresAt_def)





lemma share_post_user_checked:
  assumes "i \<noteq> []" and "userEmail b = Some em" and "em \<noteq> []"
    and "\<not> truthy (body_role b) \<or> body_role b \<in> set allowedRoles"
    and "find (\<lambda>f. file_id f = i) (files d) = Some f"
    and "file_ownerId f = user_id u"
    and "find (\<lambda>x. user_email x = em) (users d) = Some su"
    and "user_id su \<noteq> user_id u"
    and "find (\<lambda>s. share_fileId s = i \<and> share_sharedWithUserId s = Some (user_id su)
                \<and> share_shareType s = User) (shares d) = None"
  shows "share_post_user e (Some u) i b d =
     (case validate_expiresAt e (expiresAt b) of
        Inl msg \<Rightarrow> (respond 400 (ErrorMsg msg), d)
      | Inr expiresAtDate \<Rightarrow>
          let newShare =
            \<lparr>share_id = nanoid e 0, share_fileId = i, share_shareType = User,
             share_sharedWithUserId = Some (user_id su), share_token = None,
             share_role = (if body_role b = JString ''editor'' then Editor else Viewer),
             share_expiresAt = expiresAtDate, share_createdAt = now e,
             share_createdBy = user_id u\<rparr>
          in (case insert_share e newShare d of
                Inl x \<Rightarrow> (respond 500 (Thrown x), d)
              | Inr d1 \<Rightarrow>
                  (case logActivity e 1 i (user_id u) Share
                          (Some (''Shared with '' @ em)) d1 of
                     Inl x \<Rightarrow> (respond 500 (Thrown x), d1)
                   | Inr d2 \<Rightarrow> (respond 201 (Shared newShare su), d2))))"
proof (cases "body_role b = JUndefined")
  case True
  then show ?thesis
    using assms(1-3,5-9) unfolding share_post_user_def
    by (simp add: allowedRoles_def Let_def split: sum.splits)
next
  case False
  show ?thesis
  proof (cases "truthy (body_role b)")
    case True
    with assms(4) have "body_role b = JString ''viewer'' \<or> body_role b = JString ''editor''"
      by (simp add: allowedRoles_def)
    then show ?thesis
      using assms(1-3,5-9) unfolding share_post_user_def
      by (auto simp: allowedRoles_def Let_def split: sum.splits)
  next
    case nt: False
    then have "body_role b \<noteq> JString ''editor''" by auto
    then show ?thesis
      using assms(1-3,5-9) False nt unfolding share_post_user_def
      by (simp add: allowedRoles_def Let_def split: sum.splits)
  qed
qed


lemma share_post_user_rejects_role:
  assumes "i \<noteq> []" and "userEmail b = Some em" and "em \<noteq> []"
    and "truthy (body_role b)" and "body_role b \<notin> set allowedRoles"
  shows "share_post_user e (Some u) i b d
     = (respond 400 (ErrorMsg (''Invalid role. Must be 'viewer' or 'editor'' @ [CHR 0x27])), d)"
proof -
  from assms(4) have "body_role b \<noteq> JUndefined" by auto
  then show ?thesis
    using assms unfolding share_post_user_def by (simp add: Let_def)
qed

lemma insert_share_shares: "insert_share e r d = Inr d1 \<Longrightarrow> shares d1 = shares d @ [r]"
  by (auto simp: insert_share_def split: if_splits)

lemma logActivity_shares: "logActivity e k f u t m d = Inr d1 \<Longrightarrow> shares d1 = shares d"
  by (auto simp: logActivity_def insert_activityLog_def split: if_splits)

lemma share_post_user_adds:
  assumes "share_post_user e ru i b d = (r, d')"
  shows "shares d' = shares d \<or> (\<exists>s. shares d' = shares d @ [s] \<and> share_shareType s = User
           \<and> (share_role s = Viewer \<or> share_role s = Editor))"
  using assms unfolding share_post_user_def Let_def
  by (auto split: option.splits sum.splits if_splits
        dest!: insert_share_shares logActivity_shares dest: role_in_allowed)

lemma share_post_link_adds:
  assumes "share_post_link e ru i ex d = (r, d')"
  shows "shares d' = shares d \<or> (\<exists>s. shares d' = shares d @ [s] \<and> share_shareType s = Link
           \<and> share_role s = Viewer)"
  using assms unfolding share_post_link_def Let_def
  by (auto split: option.splits sum.splits if_splits
        dest!: insert_share_shares logActivity_shares)



lemma reachable_roles:
  assumes "s \<in> set (shares (run h (initial us)))"
  shows "share_role s = Viewer \<or> share_role s = Editor"
proof -
  have "grant_rows_ok (run h (initial us))"
    using reachable_inv [of h us] by (simp add: state_ok_def)
  with assms have "share_role s \<noteq> Owner" unfolding grant_rows_ok_def by blast
  then show ?thesis by (cases "share_role s") simp_all
qed

lemma share_delete_owner:
  assumes "share_delete e ru i d = (r, d')" and "status r = 200"
  shows "\<exists>u s f. ru = Some u \<and> find (\<lambda>s. share_id s = i) (shares d) = Some s
     \<and> find (\<lambda>f. file_id f = share_fileId s) (files d) = Some f
     \<and> file_ownerId f = user_id u"
  using assms unfolding share_delete_def
  by (auto simp: respond_def split: option.splits sum.splits if_splits)

lemma share_post_user_duplicate:
  assumes "i \<noteq> []" and "userEmail b = Some em" and "em \<noteq> []"
    and "\<not> truthy (body_role b) \<or> body_role b \<in> set allowedRoles"
    and "find (\<lambda>f. file_id f = i) (files d) = Some f"
    and "file_ownerId f = user_id u"
    and "find (\<lambda>x. user_email x = em) (users d) = Some su"
    and "user_id su \<noteq> user_id u"
  shows "fst (share_post_user e (Some u) i b d)
           = respond 400 (ErrorMsg ''File already shared with this user'')
     \<longleftrightarrow> (\<exists>s\<in>set (shares d). share_fileId s = i
            \<and> share_sharedWithUserId s = Some (user_id su) \<and> share_shareType s = User)"
proof (cases "find (\<lambda>s. share_fileId s = i \<and> share_sharedWithUserId s = Some (user_id su)
                \<and> share_shareType s = User) (shares d)")
  case None
  then have no: "\<not> (\<exists>s\<in>set (shares d). share_fileId s = i
            \<and> share_sharedWithUserId s = Some (user_id su) \<and> share_shareType s = User)"
    by (simp add: find_None_iff)
  have "fst (share_post_user e (Some u) i b d)
           \<noteq> respond 400 (ErrorMsg ''File already shared with this user'')"
    unfolding share_post_user_checked [OF assms None]
    by (auto simp: respond_def validate_expiresAt_def Let_def
          split: sum.splits option.splits if_splits)
  with no show ?thesis by simp
next
  case (Some existingShare)
  then have "\<exists>s\<in>set (shares d). share_fileId s = i
            \<and> share_sharedWithUserId s = Some (user_id su) \<and> share_shareType s = User"
    by (auto simp: find_Some_iff)
  moreover have "fst (share_post_user e (Some u) i b d)
           = respond 400 (ErrorMsg ''File already shared with this user'')"
  proof (cases "body_role b = JUndefined")
    case True
    then show ?thesis
      using assms(1-3,5-8) Some unfolding share_post_user_def
      by (simp add: allowedRoles_def Let_def)
  next
    case False
    then show ?thesis
      using assms Some unfolding share_post_user_def
      by (auto simp: Let_def)
  qed
  ultimately show ?thesis by simp
qed

lemma share_again_after_revoke:
  assumes d: "d = run h (initial us)"
    and g: "g \<in> set (shares d)" "share_shareType g = User"
      "share_sharedWithUserId g = Some (user_id su)"
    and del: "share_delete e1 (Some u) (share_id g) d = (r1, d1)" "status r1 = 200"
    and b: "userEmail b = Some em" "em \<noteq> []"
      "\<not> truthy (body_role b) \<or> body_role b \<in> set allowedRoles"
      "\<not> truthy (expiresAt b)
         \<or> (\<exists>t. new_Date (date_parse e2) (expiresAt b) = Some t \<and> now e2 < t)"
    and su: "find (\<lambda>x. user_email x = em) (users d) = Some su"
    and io: "\<not> fails e2 InsShare" "\<not> fails e2 InsLog"
      "nanoid e2 0 \<notin> set (map share_id (shares d1))"
      "nanoid e2 1 \<notin> set (map log_id (activityLog d1))"
  shows "status (fst (share_post_user e2 (Some u) (share_fileId g) b d1)) = 201"
proof -
  have inv: "state_ok d" unfolding d by (rule reachable_inv)
  from share_delete_ok [OF del]
  have sh: "shares d1 = filter (\<lambda>s. share_id s \<noteq> share_id g) (shares d)"
    and fl: "files d1 = files d" and us: "users d1 = users d" by simp_all
  from share_delete_owner [OF del] obtain s f where
    s: "find (\<lambda>s. share_id s = share_id g) (shares d) = Some s"
    and f: "find (\<lambda>f. file_id f = share_fileId s) (files d) = Some f"
    and own: "file_ownerId f = user_id u"
    by auto
  from inv have "distinct (map share_id (shares d))" by (simp add: state_ok_defs)
  then have "find (\<lambda>s. share_id s = share_id g) (shares d) = Some g"
    using g(1) by (rule find_distinct_key)
  with s have sg: "s = g" by simp
  from f have fin: "f \<in> set (files d)" and fid: "file_id f = share_fileId g"
    unfolding sg by (auto simp: find_Some_iff)
  from inv g(1) have ne: "share_fileId g \<noteq> []"
    unfolding state_ok_def grant_rows_ok_def by fastforce
  from inv g fin fid have "Some (user_id su) \<noteq> Some (file_ownerId f)"
    unfolding state_ok_def grant_rows_ok_def by fastforce
  with own have other: "user_id su \<noteq> user_id u" by simp
  from su have suin: "su \<in> set (users d)" by (auto simp: find_Some_iff)
  from inv fin have "file_ownerId f \<in> set (map user_id (users d))"
    by (simp add: state_ok_defs)
  with own have uin: "user_id u \<in> set (map user_id (users d))" by simp
  have none: "find (\<lambda>s. share_fileId s = share_fileId g
        \<and> share_sharedWithUserId s = Some (user_id su) \<and> share_shareType s = User)
        (shares d1) = None"
  proof -
    have "\<not> (share_fileId s = share_fileId g \<and> share_sharedWithUserId s = Some (user_id su)
        \<and> share_shareType s = User)" if "s \<in> set (shares d1)" for s
    proof
      assume a: "share_fileId s = share_fileId g \<and> share_sharedWithUserId s = Some (user_id su)
        \<and> share_shareType s = User"
      from that have sin: "s \<in> set (shares d)" and sid: "share_id s \<noteq> share_id g"
        by (simp_all add: sh)
      have "s = g"
        by (rule grant_only_one [OF inv g(1,2) sin _ _ g(3)]) (use a g(3) in simp_all)
      with sid show False by simp
    qed
    then show ?thesis by (simp add: find_None_iff)
  qed
  from b(4) have "\<not> (truthy (expiresAt b)
      \<and> (\<forall>t. new_Date (date_parse e2) (expiresAt b) = Some t \<longrightarrow> t \<le> now e2))"
    by fastforce
  then have "\<not> (\<exists>m. validate_expiresAt e2 (expiresAt b) = Inl m)"
    unfolding validate_expiresAt_Inl .
  then obtain x where ex: "validate_expiresAt e2 (expiresAt b) = Inr x"
    by (cases "validate_expiresAt e2 (expiresAt b)") auto
  have f1: "find (\<lambda>f. file_id f = share_fileId g) (files d1) = Some f"
    using f unfolding sg fl .
  have su1: "find (\<lambda>x. user_email x = em) (users d1) = Some su"
    using su unfolding us .
  have "file_id f \<in> set (map file_id (files d))" using fin by simp
  then have fk1: "share_fileId g \<in> set (map file_id (files d1))"
    unfolding fl fid .
  have fk2: "user_id su \<in> set (map user_id (users d1))"
    using suin unfolding us by simp
  have fk3: "user_id u \<in> set (map user_id (users d1))"
    using uin unfolding us .
  show ?thesis
    unfolding share_post_user_checked [OF ne b(1,2,3) f1 own su1 other none]
    using ex io fk1 fk2 fk3
    by (simp add: Let_def insert_share_def logActivity_def insert_activityLog_def respond_def)
qed

lemma audit_down_simps [simp]:
  "now (audit_down e) = now e" "nanoid (audit_down e) = nanoid e"
  "fails (audit_down e) c = (c = InsLog \<or> fails e c)"
  "cloudinary_upload (audit_down e) = cloudinary_upload e"
  "cloudinary_resource (audit_down e) = cloudinary_resource e"
  "date_parse (audit_down e) = date_parse e"
  by (simp_all add: audit_down_def)

lemma insert_share_audit_down [simp]: "insert_share (audit_down e) r d = insert_share e r d"
  by (simp add: insert_share_def)

lemma insert_file_audit_down [simp]: "insert_file (audit_down e) r d = insert_file e r d"
  by (simp add: insert_file_def)

lemma delete_share_audit_down [simp]: "delete_share (audit_down e) i d = delete_share e i d"
  by (simp add: delete_share_def)

lemma cloudinary_destroy_audit_down [simp]:
  "cloudinary_destroy (audit_down e) p rt d = cloudinary_destroy e p rt d"
  by (simp add: cloudinary_destroy_def)

lemma validate_expiresAt_audit_down [simp]:
  "validate_expiresAt (audit_down e) v = validate_expiresAt e v"
  by (cases "new_Date (date_parse e) v") (simp_all add: validate_expiresAt_def)

lemma logActivity_audit_down [simp]:
  "logActivity (audit_down e) k f u t m d = Inl StorageFailure"
  by (simp add: logActivity_def insert_activityLog_def)

lemma logActivity_undo:
  "logActivity e k f u t m d1 = Inr d' \<Longrightarrow> d'\<lparr>activityLog := activityLog d1\<rparr> = d1"
  by (auto simp: logActivity_def insert_activityLog_def split: if_splits)

lemma insert_share_log: "insert_share e r d = Inr d1 \<Longrightarrow> activityLog d1 = activityLog d"
  by (auto simp: insert_share_def split: if_splits)

lemma delete_share_log: "delete_share e i d = Inr d1 \<Longrightarrow> activityLog d1 = activityLog d"
  by (auto simp: delete_share_def split: if_splits)

lemma share_post_user_created:
  assumes "share_post_user e ru i b d = (r, d')" and "status r = 201"
  shows "\<exists>u em f su. ru = Some u \<and> i \<noteq> [] \<and> userEmail b = Some em \<and> em \<noteq> []
     \<and> (\<not> truthy (body_role b) \<or> body_role b \<in> set allowedRoles)
     \<and> find (\<lambda>f. file_id f = i) (files d) = Some f \<and> file_ownerId f = user_id u
     \<and> find (\<lambda>x. user_email x = em) (users d) = Some su \<and> user_id su \<noteq> user_id u
     \<and> find (\<lambda>s. share_fileId s = i \<and> share_sharedWithUserId s = Some (user_id su)
                \<and> share_shareType s = User) (shares d) = None"
proof (cases "body_role b = JUndefined")
  case True
  then show ?thesis
    using assms unfolding share_post_user_def Let_def
    by (auto simp: respond_def split: option.splits sum.splits if_splits)
next
  case False
  then show ?thesis
    using assms unfolding share_post_user_def Let_def
    by (auto simp: respond_def split: option.splits sum.splits if_splits)
qed

lemma share_post_user_audit:
  assumes "share_post_user e ru i b d = (r, d')" and "status r = 201"
  shows "share_post_user (audit_down e) ru i b d
           = (respond 500 (Thrown StorageFailure), d'\<lparr>activityLog := activityLog d\<rparr>)
       \<and> (\<exists>s. shares d' = shares d @ [s])"
proof -
  from share_post_user_created [OF assms] obtain u em f su where
    ru: "ru = Some u" and c: "i \<noteq> []" "userEmail b = Some em" "em \<noteq> []"
      "\<not> truthy (body_role b) \<or> body_role b \<in> set allowedRoles"
      "find (\<lambda>f. file_id f = i) (files d) = Some f" "file_ownerId f = user_id u"
      "find (\<lambda>x. user_email x = em) (users d) = Some su" "user_id su \<noteq> user_id u"
      "find (\<lambda>s. share_fileId s = i \<and> share_sharedWithUserId s = Some (user_id su)
                \<and> share_shareType s = User) (shares d) = None"
    by blast
  note chk = share_post_user_checked [OF c]
  from assms obtain x newShare d1 where
    v: "validate_expiresAt e (expiresAt b) = Inr x"
    and n: "newShare = \<lparr>share_id = nanoid e 0, share_fileId = i, share_shareType = User,
             share_sharedWithUserId = Some (user_id su), share_token = None,
             share_role = (if body_role b = JString ''editor'' then Editor else Viewer),
             share_expiresAt = x, share_createdAt = now e,
             share_createdBy = user_id u\<rparr>"
    and ins: "insert_share e newShare d = Inr d1"
    and log: "logActivity e 1 i (user_id u) Share (Some (''Shared with '' @ em)) d1 = Inr d'"
    unfolding ru chk
    by (auto simp: respond_def Let_def split: sum.splits)
  have "d'\<lparr>activityLog := activityLog d\<rparr> = d1"
    using logActivity_undo [OF log] insert_share_log [OF ins] by simp
  moreover have "share_post_user (audit_down e) ru i b d
           = (respond 500 (Thrown StorageFailure), d1)"
    unfolding ru chk using v ins n by (simp add: Let_def)
  moreover have "shares d' = shares d @ [newShare]"
    using logActivity_shares [OF log] insert_share_shares [OF ins] by simp
  ultimately show ?thesis by simp
qed

lemma share_post_link_audit:
  assumes "share_post_link e ru i ex d = (r, d')" and "status r = 201"
  shows "share_post_link (audit_down e) ru i ex d
           = (respond 500 (Thrown StorageFailure), d'\<lparr>activityLog := activityLog d\<rparr>)
       \<and> (\<exists>s. shares d' = shares d @ [s])"
proof -
  from assms obtain u f x newShare d1 where
    ru: "ru = Some u" and c: "i \<noteq> []" "find (\<lambda>f. file_id f = i) (files d) = Some f"
      "file_ownerId f = user_id u"
    and v: "validate_expiresAt e ex = Inr x"
    and n: "newShare = \<lparr>share_id = nanoid e 1, share_fileId = i, share_shareType = Link,
                 share_sharedWithUserId = None, share_token = Some (nanoid e 0),
                 share_role = Viewer, share_expiresAt = x,
                 share_createdAt = now e, share_createdBy = user_id u\<rparr>"
    and ins: "insert_share e newShare d = Inr d1"
    and log: "logActivity e 2 i (user_id u) Share (Some ''Generated share link'') d1 = Inr d'"
    unfolding share_post_link_def Let_def
    by (auto simp: respond_def split: option.splits sum.splits if_splits)
  have "d'\<lparr>activityLog := activityLog d\<rparr> = d1"
    using logActivity_undo [OF log] insert_share_log [OF ins] by simp
  moreover have "share_post_link (audit_down e) ru i ex d
           = (respond 500 (Thrown StorageFailure), d1)"
    unfolding ru share_post_link_def using c v ins n by (simp add: Let_def)
  moreover have "shares d' = shares d @ [newShare]"
    using logActivity_shares [OF log] insert_share_shares [OF ins] by simp
  ultimately show ?thesis by simp
qed

lemma share_delete_audit:
  assumes "share_delete e ru i d = (r, d')" and "status r = 200"
  shows "share_delete (audit_down e) ru i d
           = (respond 500 (Thrown StorageFailure), d'\<lparr>activityLog := activityLog d\<rparr>)
       \<and> shares d' = filter (\<lambda>s. share_id s \<noteq> i) (shares d)"
proof -
  from assms obtain u s f d1 where
    ru: "ru = Some u" and c: "i \<noteq> []" "find (\<lambda>s. share_id s = i) (shares d) = Some s"
      "find (\<lambda>f. file_id f = share_fileId s) (files d) = Some f"
      "file_ownerId f = user_id u"
    and del: "delete_share e i d = Inr d1"
    and log: "logActivity e 0 (share_fileId s) (user_id u) Unshare
                (Some (''Revoked share '' @ i)) d1 = Inr d'"
    unfolding share_delete_def
    by (auto simp: respond_def split: option.splits sum.splits if_splits)
  have "d'\<lparr>activityLog := activityLog d\<rparr> = d1"
    using logActivity_undo [OF log] delete_share_log [OF del] by simp
  moreover have "share_delete (audit_down e) ru i d
           = (respond 500 (Thrown StorageFailure), d1)"
    unfolding ru share_delete_def using c del by simp
  ultimately show ?thesis using share_delete_ok [OF assms] by simp
qed

lemma files_post_upload_audit:
  assumes "files_post_upload e ru rf d = (r, d')" and "status r = 201"
  shows "\<exists>d'' uf f. rf = Some uf
       \<and> files_post_upload (audit_down e) ru rf d = (respond 500 (Thrown StorageFailure), d'')
       \<and> files d' = files d @ [f] \<and> files d'' = files d'
       \<and> activityLog d'' = activityLog d
       \<and> (\<not> fails e CloudDestroy
            \<longrightarrow> public_id (cloudinary_upload e (path uf)) \<notin> set (blobs d''))"
proof -
  from assms obtain u uf f where ru: "ru = Some u" and rf: "rf = Some uf"
    and one: "upload_one e u uf d = (Inr f, d')"
    unfolding files_post_upload_def
    by (auto simp: respond_def split: option.splits sum.splits prod.splits)
  define d0 where "d0 = d\<lparr>blobs := blobs d @ [public_id (cloudinary_upload e (path uf))]\<rparr>"
  from one obtain d1 where cu: "\<not> fails e CloudUpload"
    and ins: "insert_file e f d0 = Inr d1"
    and f: "f = \<lparr>file_id = nanoid e 0, file_filename = originalname uf,
                       file_cloudinaryId = public_id (cloudinary_upload e (path uf)),
                       file_fileUrl = secure_url (cloudinary_upload e (path uf)),
                       file_size = upload_size uf, file_type = mimetype uf,
                       file_resourceType = Some (resource_type (cloudinary_upload e (path uf))),
                       file_ownerId = user_id u,
                       file_createdAt = now e, file_updatedAt = now e\<rparr>"
    and log: "logActivity e 1 (nanoid e 0) (user_id u) Upload None d1 = Inr d'"
    unfolding upload_one_def Let_def d0_def
    by (auto split: if_splits sum.splits)
  define d'' where "d'' = (case cloudinary_destroy e (public_id (cloudinary_upload e (path uf)))
       (resource_type (cloudinary_upload e (path uf))) d1 of Inl _ \<Rightarrow> d1 | Inr s' \<Rightarrow> s')"
  have "upload_one (audit_down e) u uf d = (Inl StorageFailure, d'')"
    unfolding upload_one_def Let_def d''_def using cu ins
    by (simp add: d0_def f)
  then have a: "files_post_upload (audit_down e) ru rf d
      = (respond 500 (Thrown StorageFailure), d'')"
    unfolding files_post_upload_def ru rf by simp
  have d1: "d1 = d0\<lparr>files := files d0 @ [f]\<rparr>"
    using ins by (auto simp: insert_file_def split: if_splits)
  have d': "files d' = files d1" "activityLog d1 = activityLog d"
    using log d1 by (auto simp: logActivity_def insert_activityLog_def d0_def split: if_splits)
  have b: "files d'' = files d1" "activityLog d'' = activityLog d1"
    "\<not> fails e CloudDestroy
       \<Longrightarrow> public_id (cloudinary_upload e (path uf)) \<notin> set (blobs d'')"
    unfolding d''_def by (simp_all add: cloudinary_destroy_def)
  have fl: "files d' = files d @ [f]" using d' d1 by (simp add: d0_def)
  show ?thesis
    by (rule exI [of _ d''], rule exI [of _ uf], rule exI [of _ f])
       (use a b d' rf fl in simp)
qed

section \<open>The properties\<close>

text \<open>
  C1. In every state the routes reach, a direct grant that has not expired makes
  \<open>GET /api/files/:id\<close> answer its target with 200 and the role of the grant; once
  \<open>DELETE /api/share/:shareId\<close> has answered 200 for that grant, the same request is
  answered 403 "Access denied", at whatever time it is made.
\<close>

theorem direct_grant_allows_until_revoked:
  assumes d: "d = run h (initial us)"
    and g: "g \<in> set (shares d)" "share_shareType g = User"
      "share_sharedWithUserId g = Some (user_id u)"
    and active: "not_expired (now e) g"
  shows "(\<exists>f. files_get_id e (Some u) (share_fileId g) d
              = respond 200 (FileInfo f False (Some (share_role g))))
       \<and> (\<forall>e1 owner r1 d1 e2. share_delete e1 (Some owner) (share_id g) d = (r1, d1)
             \<longrightarrow> status r1 = 200
             \<longrightarrow> files_get_id e2 (Some u) (share_fileId g) d1
                   = respond 403 (ErrorMsg ''Access denied''))"
proof -
  have state_ok: "state_ok d" unfolding d by (rule reachable_inv)
  from state_ok g obtain f where f: "find (\<lambda>f. file_id f = share_fileId g) (files d) = Some f"
    and fid: "file_id f = share_fileId g" and own: "file_ownerId f \<noteq> user_id u"
    and ne: "share_fileId g \<noteq> []"
    by (rule grant_file)
  define P where "P = (\<lambda>t s. share_fileId s = file_id f
      \<and> share_sharedWithUserId s = Some (user_id u) \<and> not_expired t s)"
  have only: "s = g" if "s \<in> set (shares d)" and "P t s" for t s
  proof (rule grant_only_one [OF state_ok g(1,2) that(1) _ _ g(3)])
    show "share_fileId s = share_fileId g" using that(2) fid by (simp add: P_def)
    show "share_sharedWithUserId s = share_sharedWithUserId g"
      using that(2) g(3) by (simp add: P_def)
  qed
  have Pg: "P (now e) g" using fid g(3) active by (simp add: P_def)
  have "find (P (now e)) (shares d) = Some g"
    using g(1) Pg only by (rule find_unique)
  then have allowed: "files_get_id e (Some u) (share_fileId g) d
      = respond 200 (FileInfo f False (Some (share_role g)))"
    using f own ne unfolding P_def by (simp add: files_get_id_def)
  have denied: "files_get_id e2 (Some u) (share_fileId g) d1
      = respond 403 (ErrorMsg ''Access denied'')"
    if del: "share_delete e1 (Some owner) (share_id g) d = (r1, d1)" and ok: "status r1 = 200"
    for e1 owner r1 d1 e2
  proof -
    from share_delete_ok [OF del ok]
    have sh: "shares d1 = filter (\<lambda>s. share_id s \<noteq> share_id g) (shares d)"
      and fl: "files d1 = files d" by simp_all
    have "\<not> P (now e2) s" if "s \<in> set (shares d1)" for s
    proof
      assume "P (now e2) s"
      moreover from that have "s \<in> set (shares d)" and "share_id s \<noteq> share_id g"
        by (simp_all add: sh)
      ultimately show False using only by blast
    qed
    then have "find (P (now e2)) (shares d1) = None"
      by (simp add: find_None_iff)
    then show ?thesis
      using f own ne unfolding P_def by (simp add: files_get_id_def fl)
  qed
  from allowed denied show ?thesis by blast
qed

theorem direct_grant_allows_until_revoked_witness:
  "files_get_id (quiet 3 ''g'') (Some bob) ''fa'' sample_state
     = respond 200 (FileInfo sample_file False (Some Editor))
   \<and> files_get_id (quiet 5 ''g'') (Some bob) ''fa''
        (snd (share_delete (quiet 4 ''r'') (Some alice) ''sa'' sample_state))
     = respond 403 (ErrorMsg ''Access denied'')"
proof -
  have g: "sample_grant \<in> set (shares sample_state)" "share_shareType sample_grant = User"
    "share_sharedWithUserId sample_grant = Some (user_id bob)"
    "not_expired (now (quiet 3 ''g'')) sample_grant"
    by (simp_all add: sample_state_def sample_defs not_expired_def)
  obtain r1 d1 where del: "share_delete (quiet 4 ''r'') (Some alice) ''sa'' sample_state = (r1, d1)"
    by (cases "share_delete (quiet 4 ''r'') (Some alice) ''sa'' sample_state")
  then have ok: "status r1 = 200"
    by (auto simp: sample_state_def sample_defs route_defs)
  have fid: "share_fileId sample_grant = ''fa''" "share_id sample_grant = ''sa''"
    "share_role sample_grant = Editor"
    by (simp_all add: sample_grant_def)
  from direct_grant_allows_until_revoked [OF sample_run [symmetric] g]
  have a: "\<exists>f. files_get_id (quiet 3 ''g'') (Some bob) ''fa'' sample_state
              = respond 200 (FileInfo f False (Some Editor))"
    and b: "files_get_id (quiet 5 ''g'') (Some bob) ''fa'' d1
              = respond 403 (ErrorMsg ''Access denied'')"
    using del ok unfolding fid by blast+
  from a have "files_get_id (quiet 3 ''g'') (Some bob) ''fa'' sample_state
     = respond 200 (FileInfo sample_file False (Some Editor))"
    by (auto simp: sample_state_def sample_defs files_get_id_def respond_def not_expired_def)
  with b del show ?thesis by simp
qed

text \<open>
  C2. Whatever the share table holds, \<open>GET /api/files/:id\<close> answers the owner of a stored
  file with 200, \<open>isOwner\<close> true and the role "owner". The hypothesis \<open>schema_ok\<close> is what
  Postgres enforces (here: \<open>file.id\<close> is a primary key); it says nothing about grants.
\<close>

theorem owner_is_always_allowed:
  assumes "schema_ok d" and "f \<in> set (files d)"
    and "file_id f \<noteq> []" and "file_ownerId f = user_id u"
  shows "files_get_id e (Some u) (file_id f) d = respond 200 (FileInfo f True (Some Owner))"
proof -
  from assms(1) have "distinct (map file_id (files d))"
    by (simp add: schema_ok_def pk_ok_def)
  then have "find (\<lambda>y. file_id y = file_id f) (files d) = Some f"
    using assms(2) by (rule find_distinct_key)
  then show ?thesis
    using assms(3,4) by (simp add: files_get_id_def)
qed

theorem owner_is_always_allowed_witness:
  "files_get_id (quiet 500 ''g'') (Some alice) ''fa'' sample_state
     = respond 200 (FileInfo sample_file True (Some Owner))"
proof -
  have "schema_ok sample_state" using sample_state_ok by (simp add: state_ok_def)
  moreover have "sample_file \<in> set (files sample_state)" by (simp add: sample_state_def)
  moreover have "file_id sample_file \<noteq> []" "file_ownerId sample_file = user_id alice"
    "file_id sample_file = ''fa''"
    by (simp_all add: sample_file_def alice_def)
  ultimately show ?thesis
    using owner_is_always_allowed [of sample_state sample_file alice "quiet 500 ''g''"]
    by simp
qed

text \<open>
  C3. A link grant whose \<open>expiresAt\<close> lies before the clock makes
  \<open>GET /api/share/link/:token\<close> answer 403 "Share link has expired" and write nothing; a
  token that no link grant carries is answered 404 "Share link not found"; the two answers
  differ. The token column is unique, so the grant is the one the query finds.
\<close>

theorem expired_link_is_denied_not_missing:
  assumes "schema_ok d"
  shows "(\<forall>g x. g \<in> set (shares d) \<and> share_shareType g = Link \<and> share_token g = Some t
            \<and> t \<noteq> [] \<and> share_expiresAt g = Some x \<and> x < now e
          \<longrightarrow> share_get_link e (Some u) t d
                = (respond 403 (ErrorMsg ''Share link has expired''), d))
       \<and> ((\<forall>s\<in>set (shares d). \<not> (share_token s = Some t \<and> share_shareType s = Link))
            \<and> t \<noteq> []
          \<longrightarrow> share_get_link e (Some u) t d
                = (respond 404 (ErrorMsg ''Share link not found''), d))
       \<and> respond 403 (ErrorMsg ''Share link has expired'')
            \<noteq> respond 404 (ErrorMsg ''Share link not found'')"
proof (intro conjI allI impI)
  fix g x
  assume a: "g \<in> set (shares d) \<and> share_shareType g = Link \<and> share_token g = Some t
            \<and> t \<noteq> [] \<and> share_expiresAt g = Some x \<and> x < now e"
  from assms have uq: "unique_on (\<lambda>s. share_token s \<noteq> None) share_token (shares d)"
    by (simp add: schema_ok_def token_unique_def)
  have "find (\<lambda>s. share_token s = Some t \<and> share_shareType s = Link) (shares d) = Some g"
  proof (rule find_unique)
    show "g \<in> set (shares d)" using a by simp
    show "share_token g = Some t \<and> share_shareType g = Link" using a by simp
    fix y assume "y \<in> set (shares d)" and "share_token y = Some t \<and> share_shareType y = Link"
    with a show "y = g" by (intro unique_onD [OF uq]) simp_all
  qed
  with a show "share_get_link e (Some u) t d
                = (respond 403 (ErrorMsg ''Share link has expired''), d)"
    by (simp add: share_get_link_def)
next
  assume "(\<forall>s\<in>set (shares d). \<not> (share_token s = Some t \<and> share_shareType s = Link))
            \<and> t \<noteq> []"
  then have "find (\<lambda>s. share_token s = Some t \<and> share_shareType s = Link) (shares d) = None"
    and "t \<noteq> []"
    by (simp_all add: find_None_iff)
  then show "share_get_link e (Some u) t d
                = (respond 404 (ErrorMsg ''Share link not found''), d)"
    by (simp add: share_get_link_def)
next
  show "respond 403 (ErrorMsg ''Share link has expired'')
            \<noteq> respond 404 (ErrorMsg ''Share link not found'')"
    by (simp add: respond_def)
qed

theorem expired_link_is_denied_not_missing_witness:
  "share_get_link (quiet 60 ''g'') (Some bob) ''la'' link_state
     = (respond 403 (ErrorMsg ''Share link has expired''), link_state)
   \<and> share_get_link (quiet 60 ''g'') (Some bob) ''zz'' link_state
     = (respond 404 (ErrorMsg ''Share link not found''), link_state)"
proof -
  have ok: "schema_ok link_state" using link_state_ok by (simp add: state_ok_def)
  have g: "sample_link \<in> set (shares link_state) \<and> share_shareType sample_link = Link
      \<and> share_token sample_link = Some ''la'' \<and> ''la'' \<noteq> []
      \<and> share_expiresAt sample_link = Some 50 \<and> 50 < now (quiet 60 ''g'')"
    by (simp add: link_state_def sample_link_def quiet_def)
  have none: "(\<forall>s\<in>set (shares link_state).
      \<not> (share_token s = Some ''zz'' \<and> share_shareType s = Link)) \<and> ''zz'' \<noteq> []"
    by (simp add: link_state_def sample_link_def sample_grant_def)
  from expired_link_is_denied_not_missing [OF ok, of "''la''" "quiet 60 ''g''" bob] g
  have "share_get_link (quiet 60 ''g'') (Some bob) ''la'' link_state
     = (respond 403 (ErrorMsg ''Share link has expired''), link_state)"
    by blast
  moreover
  from expired_link_is_denied_not_missing [OF ok, of "''zz''" "quiet 60 ''g''" bob] none
  have "share_get_link (quiet 60 ''g'') (Some bob) ''zz'' link_state
     = (respond 404 (ErrorMsg ''Share link not found''), link_state)"
    by blast
  ultimately show ?thesis by simp
qed

text \<open>
  C4 as stated fails. Alice shares the file with Bob until time 100. At time 200 no stored
  grant is active, and yet sharing it with Bob again is answered 400 "File already shared
  with this user", and nothing is written.
\<close>

theorem expired_grant_still_blocks_counterexample:
  "filter (not_expired 200) (shares (run sample_history (initial [alice, bob, carol]))) = []
   \<and> share_post_user (quiet 200 ''t'') (Some alice) ''fa'' (to_bob\<lparr>expiresAt := JUndefined\<rparr>)
        (run sample_history (initial [alice, bob, carol]))
      = (respond 400 (ErrorMsg ''File already shared with this user''),
         run sample_history (initial [alice, bob, carol]))"
  unfolding sample_run
  by (simp add: sample_state_def sample_defs share_post_user_def allowedRoles_def
        not_expired_def Let_def)

text \<open>
  C4, as the code has it. The duplicate check of \<open>POST /api/share/:fileId/user\<close> asks for
  a stored direct grant of the file to the target and does not look at \<open>expiresAt\<close>.
  Once the checks that come first have passed, the route answers 400 "File already shared
  with this user" exactly when such a row is stored, expired or not. In every state the
  routes reach, once \<open>DELETE /api/share/:shareId\<close> has answered 200 for a direct grant,
  sharing the same file with the same user again is answered 201, provided the role and
  the expiry are acceptable and the two inserts go through.
\<close>

theorem stored_grant_blocks_until_revoked:
  "(i \<noteq> [] \<and> userEmail b = Some em \<and> em \<noteq> []
      \<and> (\<not> truthy (body_role b) \<or> body_role b \<in> set allowedRoles)
      \<and> find (\<lambda>f. file_id f = i) (files d) = Some f \<and> file_ownerId f = user_id u
      \<and> find (\<lambda>x. user_email x = em) (users d) = Some su \<and> user_id su \<noteq> user_id u
    \<longrightarrow> (fst (share_post_user e (Some u) i b d)
             = respond 400 (ErrorMsg ''File already shared with this user'')
         \<longleftrightarrow> (\<exists>s\<in>set (shares d). share_fileId s = i
                \<and> share_sharedWithUserId s = Some (user_id su) \<and> share_shareType s = User)))
   \<and> (g \<in> set (shares (run h (initial us))) \<and> share_shareType g = User
      \<and> share_sharedWithUserId g = Some (user_id tu)
      \<and> share_delete e1 (Some o1) (share_id g) (run h (initial us)) = (r1, d1)
      \<and> status r1 = 200
      \<and> userEmail b2 = Some em2 \<and> em2 \<noteq> []
      \<and> (\<not> truthy (body_role b2) \<or> body_role b2 \<in> set allowedRoles)
      \<and> (\<not> truthy (expiresAt b2)
           \<or> (\<exists>t. new_Date (date_parse e2) (expiresAt b2) = Some t \<and> now e2 < t))
      \<and> find (\<lambda>x. user_email x = em2) (users (run h (initial us))) = Some tu
      \<and> \<not> fails e2 InsShare \<and> \<not> fails e2 InsLog
      \<and> nanoid e2 0 \<notin> set (map share_id (shares d1))
      \<and> nanoid e2 1 \<notin> set (map log_id (activityLog d1))
    \<longrightarrow> status (fst (share_post_user e2 (Some o1) (share_fileId g) b2 d1)) = 201)"
proof (intro conjI impI)
  assume "i \<noteq> [] \<and> userEmail b = Some em \<and> em \<noteq> []
      \<and> (\<not> truthy (body_role b) \<or> body_role b \<in> set allowedRoles)
      \<and> find (\<lambda>f. file_id f = i) (files d) = Some f \<and> file_ownerId f = user_id u
      \<and> find (\<lambda>x. user_email x = em) (users d) = Some su \<and> user_id su \<noteq> user_id u"
  then show "fst (share_post_user e (Some u) i b d)
             = respond 400 (ErrorMsg ''File already shared with this user'')
         \<longleftrightarrow> (\<exists>s\<in>set (shares d). share_fileId s = i
                \<and> share_sharedWithUserId s = Some (user_id su) \<and> share_shareType s = User)"
    by (elim conjE) (rule share_post_user_duplicate)
next
  assume "g \<in> set (shares (run h (initial us))) \<and> share_shareType g = User
      \<and> share_sharedWithUserId g = Some (user_id tu)
      \<and> share_delete e1 (Some o1) (share_id g) (run h (initial us)) = (r1, d1)
      \<and> status r1 = 200
      \<and> userEmail b2 = Some em2 \<and> em2 \<noteq> []
      \<and> (\<not> truthy (body_role b2) \<or> body_role b2 \<in> set allowedRoles)
      \<and> (\<not> truthy (expiresAt b2)
           \<or> (\<exists>t. new_Date (date_parse e2) (expiresAt b2) = Some t \<and> now e2 < t))
      \<and> find (\<lambda>x. user_email x = em2) (users (run h (initial us))) = Some tu
      \<and> \<not> fails e2 InsShare \<and> \<not> fails e2 InsLog
      \<and> nanoid e2 0 \<notin> set (map share_id (shares d1))
      \<and> nanoid e2 1 \<notin> set (map log_id (activityLog d1))"
  then show "status (fst (share_post_user e2 (Some o1) (share_fileId g) b2 d1)) = 201"
    by (elim conjE) (rule share_again_after_revoke [OF refl])
qed

theorem stored_grant_blocks_until_revoked_witness:
  "fst (share_post_user (quiet 200 ''t'') (Some alice) ''fa'' (to_bob\<lparr>expiresAt := JUndefined\<rparr>)
          sample_state)
     = respond 400 (ErrorMsg ''File already shared with this user'')
   \<and> fst (share_post_user (quiet 200 ''t'') (Some alice) ''fa'' (to_carol JUndefined) sample_state)
     \<noteq> respond 400 (ErrorMsg ''File already shared with this user'')
   \<and> status (fst (share_post_user (quiet 200 ''t'') (Some alice) ''fa''
        (to_bob\<lparr>expiresAt := JUndefined\<rparr>)
        (snd (share_delete (quiet 150 ''r'') (Some alice) ''sa'' sample_state)))) = 201"
proof -
  let ?b = "to_bob\<lparr>expiresAt := JUndefined\<rparr>"
  have pb: "''fa'' \<noteq> [] \<and> userEmail ?b = Some ''bob@example.org'' \<and> ''bob@example.org'' \<noteq> []
      \<and> (\<not> truthy (body_role ?b) \<or> body_role ?b \<in> set allowedRoles)
      \<and> find (\<lambda>f. file_id f = ''fa'') (files sample_state) = Some sample_file
      \<and> file_ownerId sample_file = user_id alice
      \<and> find (\<lambda>x. user_email x = ''bob@example.org'') (users sample_state) = Some bob
      \<and> user_id bob \<noteq> user_id alice"
    by (simp add: sample_state_def sample_defs allowedRoles_def)
  have pc: "''fa'' \<noteq> [] \<and> userEmail (to_carol JUndefined) = Some ''carol@example.org''
      \<and> ''carol@example.org'' \<noteq> []
      \<and> (\<not> truthy (body_role (to_carol JUndefined)) \<or> body_role (to_carol JUndefined) \<in> set allowedRoles)
      \<and> find (\<lambda>f. file_id f = ''fa'') (files sample_state) = Some sample_file
      \<and> file_ownerId sample_file = user_id alice
      \<and> find (\<lambda>x. user_email x = ''carol@example.org'') (users sample_state) = Some carol
      \<and> user_id carol \<noteq> user_id alice"
    by (simp add: sample_state_def sample_defs to_carol_def)
  obtain r1 d1 where del: "share_delete (quiet 150 ''r'') (Some alice) ''sa'' sample_state = (r1, d1)"
    by (cases "share_delete (quiet 150 ''r'') (Some alice) ''sa'' sample_state")
  then have ok: "status r1 = 200" and d1: "shares d1 = []"
    "map log_id (activityLog d1) = [''fb'', ''sb'', ''ra'']"
    by (auto simp: sample_state_def sample_defs route_defs)
  have pr: "sample_grant \<in> set (shares (run sample_history (initial [alice, bob, carol])))
      \<and> share_shareType sample_grant = User
      \<and> share_sharedWithUserId sample_grant = Some (user_id bob)
      \<and> share_delete (quiet 150 ''r'') (Some alice) (share_id sample_grant)
           (run sample_history (initial [alice, bob, carol])) = (r1, d1)
      \<and> status r1 = 200
      \<and> userEmail ?b = Some ''bob@example.org'' \<and> ''bob@example.org'' \<noteq> []
      \<and> (\<not> truthy (body_role ?b) \<or> body_role ?b \<in> set allowedRoles)
      \<and> (\<not> truthy (expiresAt ?b)
           \<or> (\<exists>t. new_Date (date_parse (quiet 200 ''t'')) (expiresAt ?b) = Some t
                 \<and> now (quiet 200 ''t'') < t))
      \<and> find (\<lambda>x. user_email x = ''bob@example.org'')
           (users (run sample_history (initial [alice, bob, carol]))) = Some bob
      \<and> \<not> fails (quiet 200 ''t'') InsShare \<and> \<not> fails (quiet 200 ''t'') InsLog
      \<and> nanoid (quiet 200 ''t'') 0 \<notin> set (map share_id (shares d1))
      \<and> nanoid (quiet 200 ''t'') 1 \<notin> set (map log_id (activityLog d1))"
    unfolding sample_run using del ok d1
    by (simp add: sample_state_def sample_defs allowedRoles_def)
  have a: "fst (share_post_user (quiet 200 ''t'') (Some alice) ''fa'' ?b sample_state)
     = respond 400 (ErrorMsg ''File already shared with this user'')"
    unfolding stored_grant_blocks_until_revoked [THEN conjunct1, rule_format, OF pb]
    by (simp add: sample_state_def sample_defs)
  have c: "fst (share_post_user (quiet 200 ''t'') (Some alice) ''fa'' (to_carol JUndefined) sample_state)
     \<noteq> respond 400 (ErrorMsg ''File already shared with this user'')"
    unfolding stored_grant_blocks_until_revoked [THEN conjunct1, rule_format, OF pc]
    by (simp add: sample_state_def sample_defs)
  have "status (fst (share_post_user (quiet 200 ''t'') (Some alice)
      (share_fileId sample_grant) ?b d1)) = 201"
    by (rule stored_grant_blocks_until_revoked [THEN conjunct2, rule_format, OF pr])
  then show ?thesis using a c del by (simp add: sample_grant_def)
qed

text \<open>
  C5 as stated fails. In a state that satisfies every constraint of the schema and holds two
  active direct grants of the same file to Bob, \<open>GET /api/files/:id\<close> answers Bob 200
  with the role of the first one.
\<close>

theorem duplicate_grants_one_is_picked_counterexample:
  "schema_ok dup_state
   \<and> shares dup_state = [dup_grant, sample_grant] \<and> dup_grant \<noteq> sample_grant
   \<and> share_shareType dup_grant = User \<and> share_shareType sample_grant = User
   \<and> share_fileId dup_grant = ''fa'' \<and> share_fileId sample_grant = ''fa''
   \<and> share_sharedWithUserId dup_grant = Some (user_id bob)
   \<and> share_sharedWithUserId sample_grant = Some (user_id bob)
   \<and> not_expired 5 dup_grant \<and> not_expired 5 sample_grant
   \<and> files_get_id (quiet 5 ''g'') (Some bob) ''fa'' dup_state
        = respond 200 (FileInfo sample_file False (Some Viewer))"
  by (simp add: dup_state_def dup_grant_def sample_state_def sample_defs schema_ok_def
        pk_ok_def token_unique_def fk_ok_def unique_on_def files_get_id_def respond_def
        not_expired_def)

text \<open>
  C5, as the code has it. \<open>GET /api/files/:id\<close> and \<open>GET /api/files/:id/download\<close>
  ask for the first stored row that names the file and the user and has not expired
  (\<open>findFirst\<close>); they never count the rows. Whenever at least one such row exists, however
  many follow it, a user who is not the owner is answered 200 with the role of the first
  one, and the download route does not answer 403.
\<close>

theorem duplicate_grants_first_one_wins:
  assumes "find (\<lambda>f. file_id f = i) (files d) = Some f"
    and "file_ownerId f \<noteq> user_id u" and "i \<noteq> []"
    and "filter (\<lambda>s. share_fileId s = i \<and> share_sharedWithUserId s = Some (user_id u)
                   \<and> not_expired (now e) s) (shares d) = g # rest"
  shows "files_get_id e (Some u) i d = respond 200 (FileInfo f False (Some (share_role g)))
       \<and> status (fst (files_get_download e (Some u) i d)) \<noteq> 403"
proof -
  have fid: "file_id f = i" using assms(1) by (auto simp: find_Some_iff)
  have "find (\<lambda>s. share_fileId s = i \<and> share_sharedWithUserId s = Some (user_id u)
                   \<and> not_expired (now e) s) (shares d) = Some g"
    using assms(4) by (rule find_filter_Cons)
  then show ?thesis
    using assms(1-3) fid
    by (auto simp: files_get_id_def files_get_download_def respond_def Let_def
          split: sum.splits)
qed

theorem duplicate_grants_first_one_wins_witness:
  "files_get_id (quiet 5 ''g'') (Some bob) ''fa'' dup_state
     = respond 200 (FileInfo sample_file False (Some (share_role dup_grant)))
   \<and> status (fst (files_get_download (quiet 5 ''g'') (Some bob) ''fa'' dup_state)) \<noteq> 403"
proof -
  have "find (\<lambda>f. file_id f = ''fa'') (files dup_state) = Some sample_file"
    and "file_ownerId sample_file \<noteq> user_id bob" and "''fa'' \<noteq> []"
    and "filter (\<lambda>s. share_fileId s = ''fa'' \<and> share_sharedWithUserId s = Some (user_id bob)
                   \<and> not_expired (now (quiet 5 ''g'')) s) (shares dup_state)
         = dup_grant # [sample_grant]"
    by (simp_all add: dup_state_def dup_grant_def sample_state_def sample_defs not_expired_def)
  then show ?thesis by (rule duplicate_grants_first_one_wins)
qed

text \<open>
  C6 as stated fails. The upload that is answered 201 when nothing fails is answered 500
  when the audit insert is refused; the file row is stored all the same, no audit row is,
  and the blob has been destroyed.
\<close>

theorem audit_failure_reported_as_failure_counterexample:
  "status (fst (files_post_upload (quiet 1 ''f'') (Some alice) (Some report)
             (initial [alice, bob, carol]))) = 201
   \<and> status (fst (files_post_upload (audit_fails 1 ''f'') (Some alice) (Some report)
             (initial [alice, bob, carol]))) = 500
   \<and> map file_id (files (snd (files_post_upload (audit_fails 1 ''f'') (Some alice) (Some report)
             (initial [alice, bob, carol])))) = [''fa'']
   \<and> activityLog (snd (files_post_upload (audit_fails 1 ''f'') (Some alice) (Some report)
             (initial [alice, bob, carol]))) = []
   \<and> blobs (snd (files_post_upload (audit_fails 1 ''f'') (Some alice) (Some report)
             (initial [alice, bob, carol]))) = []"
  by (simp add: audit_fails_def audit_down_def initial_def sample_defs route_defs Let_def)

text \<open>
  C6, as the code has it. The audit insert stands inside the same \<open>try\<close> as the primary
  write, and nothing is run in a transaction. Take a request that one of the upload, direct
  share, link share and revoke routes answers with success. The same request, in the same
  environment except that the audit insert is refused, is answered 500; the state it
  leaves is the state of the successful request without the audit row, so the primary
  row change stays; the upload route has, besides, destroyed the blob it had just stored
  (unless that call fails too).
\<close>

theorem audit_failure_fails_the_request:
  "(files_post_upload e ru rf d = (r, d') \<and> status r = 201
      \<longrightarrow> (\<exists>d'' uf f. rf = Some uf
            \<and> files_post_upload (audit_down e) ru rf d
                = (respond 500 (Thrown StorageFailure), d'')
            \<and> files d' = files d @ [f] \<and> files d'' = files d'
            \<and> activityLog d'' = activityLog d
            \<and> (\<not> fails e CloudDestroy
                 \<longrightarrow> public_id (cloudinary_upload e (path uf)) \<notin> set (blobs d''))))
   \<and> (share_post_user e ru i b d = (r, d') \<and> status r = 201
      \<longrightarrow> share_post_user (audit_down e) ru i b d
            = (respond 500 (Thrown StorageFailure), d'\<lparr>activityLog := activityLog d\<rparr>)
          \<and> (\<exists>s. shares d' = shares d @ [s]))
   \<and> (share_post_link e ru i ex d = (r, d') \<and> status r = 201
      \<longrightarrow> share_post_link (audit_down e) ru i ex d
            = (respond 500 (Thrown StorageFailure), d'\<lparr>activityLog := activityLog d\<rparr>)
          \<and> (\<exists>s. shares d' = shares d @ [s]))
   \<and> (share_delete e ru i d = (r, d') \<and> status r = 200
      \<longrightarrow> share_delete (audit_down e) ru i d
            = (respond 500 (Thrown StorageFailure), d'\<lparr>activityLog := activityLog d\<rparr>)
          \<and> shares d' = filter (\<lambda>s. share_id s \<noteq> i) (shares d))"
proof (intro conjI impI)
  assume "files_post_upload e ru rf d = (r, d') \<and> status r = 201"
  then show "\<exists>d'' uf f. rf = Some uf
            \<and> files_post_upload (audit_down e) ru rf d
                = (respond 500 (Thrown StorageFailure), d'')
            \<and> files d' = files d @ [f] \<and> files d'' = files d'
            \<and> activityLog d'' = activityLog d
            \<and> (\<not> fails e CloudDestroy
                 \<longrightarrow> public_id (cloudinary_upload e (path uf)) \<notin> set (blobs d''))"
    by (elim conjE) (rule files_post_upload_audit)
next
  assume "share_post_user e ru i b d = (r, d') \<and> status r = 201"
  then have "share_post_user (audit_down e) ru i b d
            = (respond 500 (Thrown StorageFailure), d'\<lparr>activityLog := activityLog d\<rparr>)
          \<and> (\<exists>s. shares d' = shares d @ [s])"
    by (elim conjE) (rule share_post_user_audit)
  then show "share_post_user (audit_down e) ru i b d
            = (respond 500 (Thrown StorageFailure), d'\<lparr>activityLog := activityLog d\<rparr>)"
    and "\<exists>s. shares d' = shares d @ [s]" by simp_all
next
  assume "share_post_link e ru i ex d = (r, d') \<and> status r = 201"
  then have "share_post_link (audit_down e) ru i ex d
            = (respond 500 (Thrown StorageFailure), d'\<lparr>activityLog := activityLog d\<rparr>)
          \<and> (\<exists>s. shares d' = shares d @ [s])"
    by (elim conjE) (rule share_post_link_audit)
  then show "share_post_link (audit_down e) ru i ex d
            = (respond 500 (Thrown StorageFailure), d'\<lparr>activityLog := activityLog d\<rparr>)"
    and "\<exists>s. shares d' = shares d @ [s]" by simp_all
next
  assume "share_delete e ru i d = (r, d') \<and> status r = 200"
  then have "share_delete (audit_down e) ru i d
            = (respond 500 (Thrown StorageFailure), d'\<lparr>activityLog := activityLog d\<rparr>)
          \<and> shares d' = filter (\<lambda>s. share_id s \<noteq> i) (shares d)"
    by (elim conjE) (rule share_delete_audit)
  then show "share_delete (audit_down e) ru i d
            = (respond 500 (Thrown StorageFailure), d'\<lparr>activityLog := activityLog d\<rparr>)"
    and "shares d' = filter (\<lambda>s. share_id s \<noteq> i) (shares d)" by simp_all
qed

theorem audit_failure_fails_the_request_witness:
  "share_delete (audit_down (quiet 4 ''r'')) (Some alice) ''sa'' sample_state
     = (respond 500 (Thrown StorageFailure), sample_state\<lparr>shares := []\<rparr>)
   \<and> status (fst (share_delete (quiet 4 ''r'') (Some alice) ''sa'' sample_state)) = 200"
proof -
  obtain r d' where del: "share_delete (quiet 4 ''r'') (Some alice) ''sa'' sample_state = (r, d')"
    by (cases "share_delete (quiet 4 ''r'') (Some alice) ''sa'' sample_state")
  then have ok: "status r = 200"
    and d': "d'\<lparr>activityLog := activityLog sample_state\<rparr> = sample_state\<lparr>shares := []\<rparr>"
    by (auto simp: sample_state_def sample_defs route_defs)
  from del ok have "share_delete (quiet 4 ''r'') (Some alice) ''sa'' sample_state = (r, d')
      \<and> status r = 200" by simp
  from audit_failure_fails_the_request [THEN conjunct2, THEN conjunct2, THEN conjunct2,
      rule_format, OF this]
  have "share_delete (audit_down (quiet 4 ''r'')) (Some alice) ''sa'' sample_state
     = (respond 500 (Thrown StorageFailure), d'\<lparr>activityLog := activityLog sample_state\<rparr>)"
    by simp
  with d' del ok show ?thesis by simp
qed




text \<open>
  C8. In every state the routes reach, every stored grant has the role viewer or editor.
  \<open>POST /api/share/:fileId/user\<close> answers 400 "Invalid role", and writes nothing, when
  the body gives a role (a truthy value) other than "viewer" and "editor"; whatever the
  body, the row it adds, if any, is a direct grant with role viewer or editor (a body
  without a role, or with a falsy one, stores viewer). The row
  \<open>POST /api/share/:fileId/link\<close> adds, if any, is a link grant with role viewer.
\<close>

theorem stored_role_is_viewer_or_editor:
  "(\<forall>s\<in>set (shares (run h (initial us))). share_role s = Viewer \<or> share_role s = Editor)
   \<and> (\<forall>e u i b d em.
        i \<noteq> [] \<and> userEmail b = Some em \<and> em \<noteq> []
        \<and> truthy (body_role b) \<and> body_role b \<notin> set allowedRoles
        \<longrightarrow> share_post_user e (Some u) i b d
             = (respond 400
                  (ErrorMsg (''Invalid role. Must be 'viewer' or 'editor'' @ [CHR 0x27])), d))
   \<and> (\<forall>e ru i b d r d'. share_post_user e ru i b d = (r, d')
        \<longrightarrow> shares d' = shares d
            \<or> (\<exists>s. shares d' = shares d @ [s] \<and> share_shareType s = User
                  \<and> (share_role s = Viewer \<or> share_role s = Editor)))
   \<and> (\<forall>e ru i ex d r d'. share_post_link e ru i ex d = (r, d')
        \<longrightarrow> shares d' = shares d
            \<or> (\<exists>s. shares d' = shares d @ [s] \<and> share_shareType s = Link
                  \<and> share_role s = Viewer))"
proof (intro conjI ballI allI impI)
  fix s assume "s \<in> set (shares (run h (initial us)))"
  then show "share_role s = Viewer \<or> share_role s = Editor" by (rule reachable_roles)
next
  fix e :: env and u :: user_row and i :: string and b :: share_user_body
    and d :: state and em :: string
  assume "i \<noteq> [] \<and> userEmail b = Some em \<and> em \<noteq> []
        \<and> truthy (body_role b) \<and> body_role b \<notin> set allowedRoles"
  then show "share_post_user e (Some u) i b d
             = (respond 400
                  (ErrorMsg (''Invalid role. Must be 'viewer' or 'editor'' @ [CHR 0x27])), d)"
    by (elim conjE) (rule share_post_user_rejects_role)
next
  fix e ru i b d r d'
  assume "share_post_user e ru i b d = (r, d')"
  then show "shares d' = shares d
            \<or> (\<exists>s. shares d' = shares d @ [s] \<and> share_shareType s = User
                  \<and> (share_role s = Viewer \<or> share_role s = Editor))"
    by (rule share_post_user_adds)
next
  fix e ru i ex d r d'
  assume "share_post_link e ru i ex d = (r, d')"
  then show "shares d' = shares d
            \<or> (\<exists>s. shares d' = shares d @ [s] \<and> share_shareType s = Link
                  \<and> share_role s = Viewer)"
    by (rule share_post_link_adds)
qed

theorem stored_role_is_viewer_or_editor_witness:
  "sample_link \<in> set (shares (run link_history (initial [alice, bob, carol])))
   \<and> (share_role sample_link = Viewer \<or> share_role sample_link = Editor)
   \<and> share_post_user (quiet 5 ''t'') (Some alice) ''fa''
        ((to_carol JUndefined)\<lparr>body_role := JString ''owner''\<rparr>) sample_state
      = (respond 400
           (ErrorMsg (''Invalid role. Must be 'viewer' or 'editor'' @ [CHR 0x27])), sample_state)"
proof -
  have m: "sample_link \<in> set (shares (run link_history (initial [alice, bob, carol])))"
    by (simp add: link_run link_state_def)
  have b: "''fa'' \<noteq> [] \<and> userEmail ((to_carol JUndefined)\<lparr>body_role := JString ''owner''\<rparr>)
            = Some ''carol@example.org'' \<and> ''carol@example.org'' \<noteq> []
        \<and> truthy (body_role ((to_carol JUndefined)\<lparr>body_role := JString ''owner''\<rparr>))
        \<and> body_role ((to_carol JUndefined)\<lparr>body_role := JString ''owner''\<rparr>) \<notin> set allowedRoles"
    by (simp add: to_carol_def allowedRoles_def)
  note main = stored_role_is_viewer_or_editor [of link_history "[alice, bob, carol]"]
  from main [THEN conjunct1, rule_format, OF m]
  have "share_role sample_link = Viewer \<or> share_role sample_link = Editor" .
  moreover from main [THEN conjunct2, THEN conjunct1, rule_format, OF b]
  have "share_post_user (quiet 5 ''t'') (Some alice) ''fa''
        ((to_carol JUndefined)\<lparr>body_role := JString ''owner''\<rparr>) sample_state
      = (respond 400
           (ErrorMsg (''Invalid role. Must be 'viewer' or 'editor'' @ [CHR 0x27])), sample_state)" .
  ultimately show ?thesis using m by simp
qed

text \<open>
  C9. In every state the routes reach, when \<open>GET /api/files/:id\<close> answers 200 to a user
  who does not own the file, there is a direct grant of that file to that user, not expired,
  whose role is the role answered; every link grant is stored without
  \<open>sharedWithUserId\<close>; and the answer is the same with all link grants removed from the
  table.
\<close>

theorem link_grants_never_feed_user_access:
  assumes d: "d = run h (initial us)"
    and f: "find (\<lambda>f. file_id f = i) (files d) = Some f"
    and other: "file_ownerId f \<noteq> user_id u"
    and ok: "status (files_get_id e (Some u) i d) = 200"
  shows "(\<exists>g\<in>set (shares d). share_shareType g = User \<and> share_fileId g = i
            \<and> share_sharedWithUserId g = Some (user_id u) \<and> not_expired (now e) g
            \<and> files_get_id e (Some u) i d
                = respond 200 (FileInfo f False (Some (share_role g))))
       \<and> (\<forall>s\<in>set (shares d). share_shareType s = Link \<longrightarrow> share_sharedWithUserId s = None)
       \<and> files_get_id e (Some u) i
            (d\<lparr>shares := filter (\<lambda>s. share_shareType s \<noteq> Link) (shares d)\<rparr>)
          = files_get_id e (Some u) i d"
proof -
  have inv: "state_ok d" unfolding d by (rule reachable_inv)
  then have rows: "grant_rows_ok d" by (simp add: state_ok_def)
  have links: "\<forall>s\<in>set (shares d). share_shareType s = Link \<longrightarrow> share_sharedWithUserId s = None"
    using rows unfolding grant_rows_ok_def by blast
  define P where "P = (\<lambda>s. share_fileId s = file_id f
      \<and> share_sharedWithUserId s = Some (user_id u) \<and> not_expired (now e) s)"
  have fid: "file_id f = i" using f by (auto simp: find_Some_iff)
  have ne: "i \<noteq> []" using ok by (auto simp: files_get_id_def respond_def split: if_splits)
  have resp: "files_get_id e (Some u) i d =
      (if find P (shares d) = None then respond 403 (ErrorMsg ''Access denied'')
       else respond 200 (FileInfo f False (map_option share_role (find P (shares d)))))"
    using f other ne unfolding P_def by (simp add: files_get_id_def Let_def)
  with ok obtain g where g: "find P (shares d) = Some g"
    by (cases "find P (shares d)") (auto simp: respond_def)
  then have gin: "g \<in> set (shares d)" and Pg: "P g"
    by (auto simp: find_Some_iff)
  have "share_shareType g = User"
  proof (cases "share_shareType g")
    case Link
    with links gin have "share_sharedWithUserId g = None" by blast
    with Pg show ?thesis by (simp add: P_def)
  qed simp
  then have first: "\<exists>g\<in>set (shares d). share_shareType g = User \<and> share_fileId g = i
            \<and> share_sharedWithUserId g = Some (user_id u) \<and> not_expired (now e) g
            \<and> files_get_id e (Some u) i d
                = respond 200 (FileInfo f False (Some (share_role g)))"
    using gin Pg g resp fid by (intro bexI [of _ g]) (simp_all add: P_def)
  have "find P (filter (\<lambda>s. share_shareType s \<noteq> Link) (shares d)) = find P (shares d)"
  proof (rule find_filter)
    fix x assume "x \<in> set (shares d)" and "P x"
    with links show "share_shareType x \<noteq> Link" by (auto simp: P_def)
  qed
  then have third: "files_get_id e (Some u) i
            (d\<lparr>shares := filter (\<lambda>s. share_shareType s \<noteq> Link) (shares d)\<rparr>)
          = files_get_id e (Some u) i d"
    using f other ne unfolding resp unfolding P_def by (simp add: files_get_id_def Let_def)
  from first links third show ?thesis by blast
qed

theorem link_grants_never_feed_user_access_witness:
  "files_get_id (quiet 3 ''g'') (Some bob) ''fa'' link_state
     = respond 200 (FileInfo sample_file False (Some Editor))
   \<and> files_get_id (quiet 3 ''g'') (Some bob) ''fa''
        (link_state\<lparr>shares := filter (\<lambda>s. share_shareType s \<noteq> Link) (shares link_state)\<rparr>)
     = respond 200 (FileInfo sample_file False (Some Editor))"
proof -
  have f: "find (\<lambda>f. file_id f = ''fa'') (files link_state) = Some sample_file"
    and other: "file_ownerId sample_file \<noteq> user_id bob"
    by (simp_all add: link_state_def sample_state_def sample_file_def bob_def)
  have r: "files_get_id (quiet 3 ''g'') (Some bob) ''fa'' link_state
     = respond 200 (FileInfo sample_file False (Some Editor))"
    by (simp add: files_get_id_def link_state_def sample_state_def sample_defs
          sample_link_def not_expired_def)
  then have ok: "status (files_get_id (quiet 3 ''g'') (Some bob) ''fa'' link_state) = 200"
    by (simp add: respond_def)
  from link_grants_never_feed_user_access [OF link_run [symmetric] f other ok]
  have "files_get_id (quiet 3 ''g'') (Some bob) ''fa''
        (link_state\<lparr>shares := filter (\<lambda>s. share_shareType s \<noteq> Link) (shares link_state)\<rparr>)
     = files_get_id (quiet 3 ''g'') (Some bob) ''fa'' link_state"
    by blast
  with r show ?thesis by simp
qed



end
